theory Spec2Isabelle
  imports Main "HOL-Library.Word" "HOL-Library.Multiset"
begin

section \<open>Package types: the install configuration\<close>

text \<open>
  The platform-specific configuration types (\<^verbatim>\<open>aws.Platform\<close>, \<^verbatim>\<open>libvirt.Platform\<close>,
  \<^verbatim>\<open>openstack.Platform\<close>) are declared in other packages. The code below only tests
  pointers to them against nil, so they stay opaque.
\<close>

typedecl aws_Platform
typedecl libvirt_Platform
typedecl openstack_Platform

text \<open>
  \<^verbatim>\<open>MachinePool\<close> is declared next to \<^verbatim>\<open>InstallConfig\<close>; \<^verbatim>\<open>MasterCount\<close> reads its
  \<^verbatim>\<open>Name\<close> (a string) and \<^verbatim>\<open>Replicas\<close> (a nillable pointer to an \<^verbatim>\<open>int64\<close>).
  A nil pointer is \<open>None\<close>.
\<close>

record MachinePool =
  Name :: string
  Replicas :: "64 word option"

record Admin =
  Email :: string
  Password :: string
  SSHKey :: string

record Platform =
  AWS :: "aws_Platform option"
  Libvirt :: "libvirt_Platform option"
  OpenStack :: "openstack_Platform option"

text \<open>Network types and address blocks are kept in their textual form.\<close>

record Networking =
  Type :: string
  ServiceCIDR :: string
  ClusterNetworks :: "string list"
  PodCIDR :: "string option"

text \<open>
  \<^verbatim>\<open>InstallConfig\<close>: of the embedded \<^verbatim>\<open>ObjectMeta\<close> only \<^verbatim>\<open>Name\<close> is read; the embedded
  \<^verbatim>\<open>TypeMeta\<close> is never read.
\<close>

record InstallConfig =
  ObjectMeta_Name :: string
  ClusterID :: string
  Admin :: Admin
  BaseDomain :: string
  Networking :: Networking
  Machines :: "MachinePool list"
  Platform :: Platform
  PullSecret :: string

definition PlatformNameAWS :: string where
  "PlatformNameAWS = ''aws''"

definition PlatformNameOpenstack :: string where
  "PlatformNameOpenstack = ''openstack''"

definition PlatformNameLibvirt :: string where
  "PlatformNameLibvirt = ''libvirt''"

text \<open>
  \<^verbatim>\<open>MasterCount\<close>: the loop over \<^verbatim>\<open>c.Machines\<close> returns at the first pool whose name is
  \<^verbatim>\<open>"master"\<close> and whose \<^verbatim>\<open>Replicas\<close> is not nil. The result type is Go's \<^verbatim>\<open>int\<close>,
  64 bits wide on the 64-bit targets of the installer, so that the conversion
  \<^verbatim>\<open>int(*m.Replicas)\<close> from \<^verbatim>\<open>int64\<close> is the identity.
\<close>

fun MasterCount_loop :: "MachinePool list \<Rightarrow> 64 word" where
  "MasterCount_loop [] = 1"
| "MasterCount_loop (m # ms) =
     (if Name m = ''master'' \<and> Replicas m \<noteq> None then the (Replicas m)
      else MasterCount_loop ms)"

definition MasterCount :: "InstallConfig \<Rightarrow> 64 word" where
  "MasterCount c = MasterCount_loop (Machines c)"

text \<open>
  \<^verbatim>\<open>Platform.Name\<close> has a pointer receiver that it compares with nil first: the receiver
  is a \<open>Platform option\<close>.
\<close>

definition Platform_Name :: "Platform option \<Rightarrow> string" where
  "Platform_Name p =
     (case p of
        None \<Rightarrow> ''''
      | Some q \<Rightarrow>
          if AWS q \<noteq> None then PlatformNameAWS
          else if Libvirt q \<noteq> None then PlatformNameLibvirt
          else if OpenStack q \<noteq> None then PlatformNameOpenstack
          else '''')"

section \<open>Errors and results\<close>

text \<open>
  A Go \<^verbatim>\<open>error\<close> value. \<open>NotExist\<close> stands for the errors that \<^verbatim>\<open>os.IsNotExist\<close>
  recognises, \<open>Failure\<close> for every other primitive error, and \<open>Wrap e msg\<close> for
  \<^verbatim>\<open>errors.Wrap(e, msg)\<close>. \<^verbatim>\<open>os.IsNotExist\<close> does not look through an
  \<^verbatim>\<open>errors.Wrap\<close>.
\<close>

datatype error = NotExist string | Failure string | Wrap error string

fun IsNotExist :: "error \<Rightarrow> bool" where
  "IsNotExist (NotExist _) = True"
| "IsNotExist (Failure _) = False"
| "IsNotExist (Wrap _ _) = False"

text \<open>
  What a call can do: return normally, return a non-nil \<^verbatim>\<open>error\<close>, or panic
  (nil dereference, index out of range, an explicit \<^verbatim>\<open>panic\<close>).
\<close>

datatype 'a result = Ok 'a | Err error | Panic

section \<open>Package asset: files and the fetcher\<close>

text \<open>\<^verbatim>\<open>asset.File\<close>; \<^verbatim>\<open>Data\<close> is a byte slice, and a HOL \<open>char\<close> is a byte.\<close>

record File =
  Filename :: string
  Data :: string

text \<open>
  Modelled from the spec: the file of an ignition configuration, whose type is declared
  in a library. It is the spec's File: a path, permission bits and a content byte
  sequence.
\<close>

record ignFile =
  Path :: string
  Mode :: nat
  Contents :: string

text \<open>
  The part of \<^verbatim>\<open>igntypes.Config\<close> that this package writes: the ignition version, the
  storage files, the systemd units and the users. Every other field keeps its zero value
  in \<^verbatim>\<open>Generate\<close>.
\<close>

record Unit =
  unit_Name :: string
  unit_Contents :: string
  unit_Enabled :: "bool option"

record PasswdUser =
  user_Name :: string
  SSHAuthorizedKeys :: "string list"

record Config =
  Ignition_Version :: string
  Storage_Files :: "ignFile list"
  Systemd_Units :: "Unit list"
  Passwd_Users :: "PasswdUser list"

text \<open>The \<^verbatim>\<open>Bootstrap\<close> asset: two pointers, nil in a fresh asset.\<close>

record Bootstrap =
  Config :: "Config option"
  File :: "File option"

definition bootstrapIgnFilename :: string where
  "bootstrapIgnFilename = ''bootstrap.ign''"

definition rootDir :: string where
  "rootDir = ''/opt/tectonic''"

definition defaultReleaseImage :: string where
  "defaultReleaseImage = ''registry.svc.ci.openshift.org/openshift/origin-release:v4.0''"

text \<open>
  \<^verbatim>\<open>asset.FileFetcher\<close> is an interface: \<^verbatim>\<open>FetchByName\<close> returns a file pointer and an
  error, each of which may be nil.
\<close>

type_synonym FileFetcher = "string \<Rightarrow> File option \<times> error option"

text \<open>\<^verbatim>\<open>Files\<close>: the one file if there is one, else the empty slice.\<close>

definition Files :: "Bootstrap \<Rightarrow> File list" where
  "Files a = (case File a of Some f \<Rightarrow> [f] | None \<Rightarrow> [])"

text \<open>
  \<^verbatim>\<open>Load\<close>. \<^verbatim>\<open>json.Unmarshal\<close> into a fresh \<^verbatim>\<open>igntypes.Config\<close> is a parameter
  \<open>unmarshal\<close>: it yields the decoded configuration or an error. The result is the pair
  \<^verbatim>\<open>(found, err)\<close> together with the asset after the call. A fetcher that returns a nil
  file and a nil error makes \<^verbatim>\<open>file.Data\<close> a nil dereference.
\<close>

definition Load ::
  "(string \<Rightarrow> error + Config) \<Rightarrow> FileFetcher \<Rightarrow> Bootstrap \<Rightarrow> (bool \<times> error option) result \<times> Bootstrap"
where
  "Load unmarshal f a =
     (case f bootstrapIgnFilename of
        (_, Some err) \<Rightarrow>
          if IsNotExist err then (Ok (False, None), a) else (Ok (False, Some err), a)
      | (None, None) \<Rightarrow> (Panic, a)
      | (Some file, None) \<Rightarrow>
          (case unmarshal (Data file) of
             Inl err \<Rightarrow> (Ok (False, Some (Wrap err ''failed to unmarshal'')), a)
           | Inr config \<Rightarrow> (Ok (True, None), a\<lparr>File := Some file, Config := Some config\<rparr>)))"

section \<open>Package bootstrap: what Generate works with\<close>

record bootstrapTemplateData =
  BootkubeImage :: string
  ClusterDNSIP :: string
  EtcdCertSignerImage :: string
  EtcdCluster :: string
  EtcdctlImage :: string
  ReleaseImage :: string

text \<open>
  An asset descriptor is the type of the asset: the twenty asset types that
  \<^verbatim>\<open>bootstrap.go\<close> names, and \<open>other_asset\<close> for every other asset type of the
  installer, by its type name.
\<close>

datatype descriptor =
    installconfig_InstallConfig
  | tls_RootCA
  | tls_EtcdCA
  | tls_IngressCertKey
  | tls_KubeCA
  | tls_AggregatorCA
  | tls_ServiceServingCA
  | tls_ClusterAPIServerCertKey
  | tls_EtcdClientCertKey
  | tls_APIServerCertKey
  | tls_OpenshiftAPIServerCertKey
  | tls_APIServerProxyCertKey
  | tls_AdminCertKey
  | tls_KubeletCertKey
  | tls_MCSCertKey
  | tls_ServiceAccountKeyPair
  | kubeconfig_Admin
  | kubeconfig_Kubelet
  | manifests_Manifests
  | manifests_Tectonic
  | other_asset string

text \<open>
  What \<^verbatim>\<open>Generate\<close> reads of a resolved dependency: the \<^verbatim>\<open>Config\<close> pointer of the
  install-config asset, the result of \<^verbatim>\<open>Files()\<close>, and the result of \<^verbatim>\<open>Cert()\<close> of a
  certificate asset.
\<close>

record asset =
  asset_Config :: "InstallConfig option"
  asset_Files :: "File list"
  asset_Cert :: string

text \<open>
  Modelled from the spec: \<^verbatim>\<open>asset.Parents\<close>, the resolved-dependency view, whose source
  is in package asset. It is a mapping from asset descriptor to resolved asset instance.
\<close>

type_synonym Parents = "descriptor \<Rightarrow> asset option"

text \<open>
  A parsed \<^verbatim>\<open>text/template\<close> template: its name and what \<^verbatim>\<open>Execute\<close> writes for the
  template data, \<open>None\<close> when \<^verbatim>\<open>Execute\<close> returns an error.
\<close>

record Template =
  tmpl_Name :: string
  tmpl_Execute :: "bootstrapTemplateData \<Rightarrow> string option"

text \<open>
  What the package takes from elsewhere, as parameters: the values of package
  \<^verbatim>\<open>content\<close> (strings, templates, a slice of templates, and three maps from file name
  to file text, each given by the list of its entries, keys distinct),
  \<^verbatim>\<open>installconfig.ClusterDNSIP\<close>,
  \<^verbatim>\<open>json.Marshal\<close> on an ignition configuration, \<^verbatim>\<open>filepath.Join\<close> of two elements,
  \<^verbatim>\<open>igntypes.MaxVersion.String()\<close>, and \<open>make_limit\<close>, the largest length for which
  \<^verbatim>\<open>make([]string, n)\<close> can allocate the slice in this run.
\<close>

record externals =
  BootkubeSystemdContents :: string
  TectonicSystemdContents :: string
  ReportSystemdContents :: string
  KubeletSystemdContents :: string
  ReportShFileContents :: string
  TectonicShFileContents :: string
  BootkubeShFileTemplate :: Template
  BootkubeConfigOverrides :: "Template list"
  BootkubeKubeDNSService :: Template
  PodCheckpointerBootkubeManifests :: "(string \<times> string) list"
  KubeProxyBootkubeManifests :: "(string \<times> string) list"
  KubeDNSBootkubeManifests :: "(string \<times> string) list"
  installconfig_ClusterDNSIP :: "InstallConfig option \<Rightarrow> string result"
  json_Marshal :: "Config \<Rightarrow> error + string"
  filepath_Join :: "string \<Rightarrow> string \<Rightarrow> string"
  MaxVersion :: string
  make_limit :: nat

text \<open>The process environment, as \<^verbatim>\<open>os.LookupEnv\<close> sees it.\<close>

type_synonym environ = "string \<Rightarrow> string option"

text \<open>
  A \<^verbatim>\<open>range\<close> over a Go map visits every entry once, in an order that the language
  leaves unspecified and that may change from one run to the next. The order of each of
  the three \<^verbatim>\<open>range\<close> statements over a map is an explicit argument: the sequence of
  entries as visited, which is a permutation of the entries of the map.
\<close>

record iteration =
  PodCheckpointer_visits :: "(string \<times> string) list"
  KubeProxy_visits :: "(string \<times> string) list"
  KubeDNS_visits :: "(string \<times> string) list"

definition range_order :: "('k \<times> 'v) list \<Rightarrow> ('k \<times> 'v) list \<Rightarrow> bool" where
  "range_order m visits \<longleftrightarrow> mset visits = mset m"

definition range_orders :: "externals \<Rightarrow> iteration \<Rightarrow> bool" where
  "range_orders X it \<longleftrightarrow>
     range_order (PodCheckpointerBootkubeManifests X) (PodCheckpointer_visits it) \<and>
     range_order (KubeProxyBootkubeManifests X) (KubeProxy_visits it) \<and>
     range_order (KubeDNSBootkubeManifests X) (KubeDNS_visits it)"

text \<open>
  The state that \<^verbatim>\<open>Generate\<close> and its helpers work on: the receiver \<open>self\<close>, and
  \<open>requested\<close>, the descriptors passed to \<^verbatim>\<open>Parents.Get\<close> so far, in call order
  (a record of the calls, not a variable of the program).
\<close>

record gen_state =
  self :: Bootstrap
  requested :: "descriptor list"

type_synonym 'a action = "gen_state \<Rightarrow> 'a result \<times> gen_state"

definition ret :: "'a \<Rightarrow> 'a action" where
  "ret x s = (Ok x, s)"

definition lift :: "'a result \<Rightarrow> 'a action" where
  "lift r s = (r, s)"

definition bind :: "'a action \<Rightarrow> ('a \<Rightarrow> 'b action) \<Rightarrow> 'b action" where
  "bind m f s =
     (case m s of
        (Ok x, s') \<Rightarrow> f x s'
      | (Err e, s') \<Rightarrow> (Err e, s')
      | (Panic, s') \<Rightarrow> (Panic, s'))"

text \<open>A \<^verbatim>\<open>for\<close> over a slice, or over the entries of a map in the order visited.\<close>

fun forEach :: "'x list \<Rightarrow> ('x \<Rightarrow> unit action) \<Rightarrow> unit action" where
  "forEach [] body = ret ()"
| "forEach (x # xs) body = bind (body x) (\<lambda>_. forEach xs body)"

text \<open>\<^verbatim>\<open>errors.Wrap(err, msg)\<close> on the error path of a call.\<close>

definition wrapErr :: "string \<Rightarrow> 'a result \<Rightarrow> 'a result" where
  "wrapErr msg r = (case r of Err e \<Rightarrow> Err (Wrap e msg) | Ok x \<Rightarrow> Ok x | Panic \<Rightarrow> Panic)"

text \<open>
  Modelled from the spec: \<^verbatim>\<open>Parents.Get\<close>, whose source is in package asset. It hands out
  the resolved instance that the view holds for a descriptor. The resolver only
  guarantees the presence of declared dependencies: asking for a descriptor that the view
  does not hold is a panic.
\<close>

definition Get :: "Parents \<Rightarrow> descriptor \<Rightarrow> asset action" where
  "Get p d s =
     (let s' = s\<lparr>requested := requested s @ [d]\<rparr>
      in case p d of None \<Rightarrow> (Panic, s') | Some v \<Rightarrow> (Ok v, s'))"

text \<open>
  Modelled from the spec: \<^verbatim>\<open>ignition.FileFromBytes\<close>, \<^verbatim>\<open>ignition.FileFromString\<close> and
  \<^verbatim>\<open>ignition.FilesFromAsset\<close>, whose source is in package ignition. The first two build
  the File with the given path, mode and content; the third builds one File for each of
  the asset's files, under the path prefix.
\<close>

definition FileFromBytes :: "string \<Rightarrow> nat \<Rightarrow> string \<Rightarrow> ignFile" where
  "FileFromBytes path mode contents = \<lparr>Path = path, Mode = mode, Contents = contents\<rparr>"

definition FileFromString :: "string \<Rightarrow> nat \<Rightarrow> string \<Rightarrow> ignFile" where
  "FileFromString path mode contents = FileFromBytes path mode contents"

definition FilesFromAsset :: "externals \<Rightarrow> string \<Rightarrow> nat \<Rightarrow> asset \<Rightarrow> ignFile list" where
  "FilesFromAsset X pathPrefix mode a =
     map (\<lambda>f. FileFromBytes (filepath_Join X pathPrefix (Filename f)) mode (Data f)) (asset_Files a)"

text \<open>
  The statements \<^verbatim>\<open>a.Config.Storage.Files = append(a.Config.Storage.Files, ...)\<close>,
  and the same for units and users; they dereference \<^verbatim>\<open>a.Config\<close>.
\<close>

definition appendFiles :: "ignFile list \<Rightarrow> unit action" where
  "appendFiles fs s =
     (case Config (self s) of
        None \<Rightarrow> (Panic, s)
      | Some c \<Rightarrow>
          (Ok (), s\<lparr>self := (self s)\<lparr>Config := Some (c\<lparr>Storage_Files := Storage_Files c @ fs\<rparr>)\<rparr>\<rparr>))"

definition appendUnits :: "Unit list \<Rightarrow> unit action" where
  "appendUnits us s =
     (case Config (self s) of
        None \<Rightarrow> (Panic, s)
      | Some c \<Rightarrow>
          (Ok (), s\<lparr>self := (self s)\<lparr>Config := Some (c\<lparr>Systemd_Units := Systemd_Units c @ us\<rparr>)\<rparr>\<rparr>))"

definition appendUsers :: "PasswdUser list \<Rightarrow> unit action" where
  "appendUsers us s =
     (case Config (self s) of
        None \<Rightarrow> (Panic, s)
      | Some c \<Rightarrow>
          (Ok (), s\<lparr>self := (self s)\<lparr>Config := Some (c\<lparr>Passwd_Users := Passwd_Users c @ us\<rparr>)\<rparr>\<rparr>))"

definition setConfig :: "Config \<Rightarrow> unit action" where
  "setConfig c s = (Ok (), s\<lparr>self := (self s)\<lparr>Config := Some c\<rparr>\<rparr>)"

definition setFile :: "File \<Rightarrow> unit action" where
  "setFile f s = (Ok (), s\<lparr>self := (self s)\<lparr>File := Some f\<rparr>\<rparr>)"

text \<open>\<^verbatim>\<open>applyTemplateData\<close> panics when the template fails to execute.\<close>

definition applyTemplateData :: "Template \<Rightarrow> bootstrapTemplateData \<Rightarrow> string action" where
  "applyTemplateData template templateData =
     lift (case tmpl_Execute template templateData of None \<Rightarrow> Panic | Some str \<Rightarrow> Ok str)"

section \<open>Package bootstrap: getTemplateData\<close>

text \<open>
  The verb \<^verbatim>\<open>%d\<close> on a loop index, which is not negative: decimal digits, most
  significant first. \<open>digit\<close> is only applied to numbers below ten.
\<close>

definition digit :: "nat \<Rightarrow> char" where
  "digit d = ''0123456789'' ! d"

fun itoa :: "nat \<Rightarrow> string" where
  "itoa n = (if n < 10 then [digit n] else itoa (n div 10) @ [digit (n mod 10)])"

declare itoa.simps [simp del]

fun strings_Join :: "string list \<Rightarrow> string \<Rightarrow> string" where
  "strings_Join [] sep = ''''"
| "strings_Join [x] sep = x"
| "strings_Join (x # y # ys) sep = x @ sep @ strings_Join (y # ys) sep"

text \<open>\<^verbatim>\<open>fmt.Sprintf("https://%s-etcd-%d.%s:2379", name, i, baseDomain)\<close>\<close>

definition etcdEndpoint :: "string \<Rightarrow> nat \<Rightarrow> string \<Rightarrow> string" where
  "etcdEndpoint name i baseDomain =
     ''https://'' @ name @ ''-etcd-'' @ itoa i @ ''.'' @ baseDomain @ '':2379''"

definition releaseImageOverride :: string where
  "releaseImageOverride = ''OPENSHIFT_INSTALL_RELEASE_IMAGE_OVERRIDE''"

text \<open>
  \<^verbatim>\<open>getTemplateData\<close> does not touch the receiver. After \<^verbatim>\<open>ClusterDNSIP\<close> it calls
  \<^verbatim>\<open>MasterCount\<close> on the install configuration, a nil dereference when that pointer is
  nil. \<^verbatim>\<open>make\<close> panics on a negative length; on a length that it cannot allocate the
  run ends as well, by a panic (length out of range) or by the failure of the runtime
  (out of memory), both \<open>Panic\<close> here. It then reads the process environment (the
  warning it logs is not modelled).
\<close>

definition getTemplateData ::
  "externals \<Rightarrow> environ \<Rightarrow> InstallConfig option \<Rightarrow> bootstrapTemplateData result"
where
  "getTemplateData X env installConfig =
     (case installconfig_ClusterDNSIP X installConfig of
        Err err \<Rightarrow> Err (Wrap err ''failed to get ClusterDNSIP from InstallConfig'')
      | Panic \<Rightarrow> Panic
      | Ok clusterDNSIP \<Rightarrow>
          (case installConfig of
             None \<Rightarrow> Panic
           | Some ic \<Rightarrow>
               if sint (MasterCount ic) < 0 \<or> make_limit X < unat (MasterCount ic) then Panic
               else
                 let etcdEndpoints =
                       map (\<lambda>i. etcdEndpoint (ObjectMeta_Name ic) i (BaseDomain ic))
                         [0 ..< unat (MasterCount ic)];
                     releaseImage =
                       (case env releaseImageOverride of
                          Some ri \<Rightarrow> if ri \<noteq> '''' then ri else defaultReleaseImage
                        | None \<Rightarrow> defaultReleaseImage)
                 in Ok \<lparr>BootkubeImage = ''quay.io/coreos/bootkube:v0.10.0'',
                        ClusterDNSIP = clusterDNSIP,
                        EtcdCertSignerImage =
                          ''quay.io/coreos/kube-etcd-signer-server:678cc8e6841e2121ebfdb6e2db568fce290b67d6'',
                        EtcdCluster = strings_Join etcdEndpoints '','',
                        EtcdctlImage = ''quay.io/coreos/etcd:v3.2.14'',
                        ReleaseImage = releaseImage\<rparr>))"

section \<open>Package bootstrap: Dependencies and Generate\<close>

definition Dependencies :: "descriptor list" where
  "Dependencies =
     [installconfig_InstallConfig, tls_RootCA, tls_EtcdCA, tls_IngressCertKey, tls_KubeCA,
      tls_AggregatorCA, tls_ServiceServingCA, tls_ClusterAPIServerCertKey,
      tls_EtcdClientCertKey, tls_APIServerCertKey, tls_OpenshiftAPIServerCertKey,
      tls_APIServerProxyCertKey, tls_AdminCertKey, tls_KubeletCertKey, tls_MCSCertKey,
      tls_ServiceAccountKeyPair, kubeconfig_Admin, kubeconfig_Kubelet, manifests_Manifests,
      manifests_Tectonic]"

text \<open>File modes: \<^verbatim>\<open>0600\<close> is 384, \<^verbatim>\<open>0555\<close> is 365, \<^verbatim>\<open>0644\<close> is 420.\<close>

definition addBootstrapFiles :: "externals \<Rightarrow> Parents \<Rightarrow> unit action" where
  "addBootstrapFiles X dependencies =
     bind (Get dependencies kubeconfig_Kubelet) (\<lambda>kubeletKubeconfig.
     bind (case asset_Files kubeletKubeconfig of
             [] \<Rightarrow> lift Panic
           | f # _ \<Rightarrow> appendFiles [FileFromBytes ''/etc/kubernetes/kubeconfig'' 384 (Data f)]) (\<lambda>_.
     appendFiles
       [FileFromString ''/usr/local/bin/report-progress.sh'' 365 (ReportShFileContents X)]))"

definition addBootkubeFiles ::
  "externals \<Rightarrow> Parents \<Rightarrow> bootstrapTemplateData \<Rightarrow> unit action"
where
  "addBootkubeFiles X dependencies templateData =
     (let bootkubeConfigOverridesDir = filepath_Join X rootDir ''bootkube-config-overrides'' in
      bind (Get dependencies kubeconfig_Admin) (\<lambda>adminKubeconfig.
      bind (Get dependencies manifests_Manifests) (\<lambda>manifests.
      bind (applyTemplateData (BootkubeShFileTemplate X) templateData) (\<lambda>str.
      bind (appendFiles [FileFromString ''/usr/local/bin/bootkube.sh'' 365 str]) (\<lambda>_.
      bind (forEach (BootkubeConfigOverrides X) (\<lambda>o'.
              bind (applyTemplateData o' templateData) (\<lambda>str.
              appendFiles
                [FileFromString (filepath_Join X bootkubeConfigOverridesDir (tmpl_Name o')) 384 str]))) (\<lambda>_.
      bind (appendFiles (FilesFromAsset X rootDir 384 adminKubeconfig)) (\<lambda>_.
      appendFiles (FilesFromAsset X rootDir 420 manifests))))))))"

definition addTemporaryBootkubeFiles ::
  "externals \<Rightarrow> iteration \<Rightarrow> bootstrapTemplateData \<Rightarrow> unit action"
where
  "addTemporaryBootkubeFiles X it templateData =
     (let podCheckpointerBootstrapDir =
            filepath_Join X rootDir ''pod-checkpointer-operator-bootstrap'';
          kubeProxyBootstrapDir = filepath_Join X rootDir ''kube-proxy-operator-bootstrap'';
          kubeDNSBootstrapDir = filepath_Join X rootDir ''kube-dns-operator-bootstrap'' in
      bind (forEach (PodCheckpointer_visits it) (\<lambda>(name, data).
              appendFiles
                [FileFromString (filepath_Join X podCheckpointerBootstrapDir name) 420 data])) (\<lambda>_.
      bind (forEach (KubeProxy_visits it) (\<lambda>(name, data).
              appendFiles
                [FileFromString (filepath_Join X kubeProxyBootstrapDir name) 420 data])) (\<lambda>_.
      bind (forEach (KubeDNS_visits it) (\<lambda>(name, data).
              appendFiles
                [FileFromString (filepath_Join X kubeDNSBootstrapDir name) 420 data])) (\<lambda>_.
      bind (applyTemplateData (BootkubeKubeDNSService X) templateData) (\<lambda>str.
      appendFiles
        [FileFromString (filepath_Join X kubeDNSBootstrapDir ''kube-dns-svc.yaml'') 420 str])))))"

definition addTectonicFiles :: "externals \<Rightarrow> Parents \<Rightarrow> unit action" where
  "addTectonicFiles X dependencies =
     bind (Get dependencies manifests_Tectonic) (\<lambda>tectonic.
     bind (appendFiles
             [FileFromString ''/usr/local/bin/tectonic.sh'' 365 (TectonicShFileContents X)]) (\<lambda>_.
     appendFiles (FilesFromAsset X rootDir 420 tectonic)))"

definition addTLSCertFiles :: "externals \<Rightarrow> Parents \<Rightarrow> unit action" where
  "addTLSCertFiles X dependencies =
     bind (forEach
             [tls_RootCA, tls_KubeCA, tls_AggregatorCA, tls_ServiceServingCA, tls_EtcdCA,
              tls_ClusterAPIServerCertKey, tls_EtcdClientCertKey, tls_APIServerCertKey,
              tls_OpenshiftAPIServerCertKey, tls_APIServerProxyCertKey, tls_AdminCertKey,
              tls_KubeletCertKey, tls_MCSCertKey, tls_ServiceAccountKeyPair]
             (\<lambda>d. bind (Get dependencies d) (\<lambda>asset.
                   appendFiles (FilesFromAsset X rootDir 384 asset)))) (\<lambda>_.
     bind (Get dependencies tls_EtcdClientCertKey) (\<lambda>etcdClientCertKey.
     appendFiles [FileFromBytes ''/etc/ssl/etcd/ca.crt'' 384 (asset_Cert etcdClientCertKey)]))"

text \<open>\<^verbatim>\<open>json.Marshal(a.Config)\<close>, with the error wrapped as \<^verbatim>\<open>Generate\<close> does.\<close>

definition marshalConfig :: "externals \<Rightarrow> string action" where
  "marshalConfig X s =
     (case Config (self s) of
        None \<Rightarrow> (Panic, s)
      | Some c \<Rightarrow>
          (case json_Marshal X c of
             Inl err \<Rightarrow> (Err (Wrap err ''failed to Marshal Ignition config''), s)
           | Inr data \<Rightarrow> (Ok data, s)))"

definition Generate :: "externals \<Rightarrow> environ \<Rightarrow> iteration \<Rightarrow> Parents \<Rightarrow> unit action" where
  "Generate X env it dependencies =
     bind (Get dependencies installconfig_InstallConfig) (\<lambda>installConfig.
     bind (lift (wrapErr ''failed to get bootstrap templates''
                   (getTemplateData X env (asset_Config installConfig)))) (\<lambda>templateData.
     bind (setConfig \<lparr>Ignition_Version = MaxVersion X, Storage_Files = [],
                      Systemd_Units = [], Passwd_Users = []\<rparr>) (\<lambda>_.
     bind (addBootstrapFiles X dependencies) (\<lambda>_.
     bind (addBootkubeFiles X dependencies templateData) (\<lambda>_.
     bind (addTemporaryBootkubeFiles X it templateData) (\<lambda>_.
     bind (addTectonicFiles X dependencies) (\<lambda>_.
     bind (addTLSCertFiles X dependencies) (\<lambda>_.
     bind (appendUnits
             [\<lparr>unit_Name = ''bootkube.service'', unit_Contents = BootkubeSystemdContents X,
               unit_Enabled = None\<rparr>,
              \<lparr>unit_Name = ''tectonic.service'', unit_Contents = TectonicSystemdContents X,
               unit_Enabled = None\<rparr>,
              \<lparr>unit_Name = ''progress.service'', unit_Contents = ReportSystemdContents X,
               unit_Enabled = Some True\<rparr>,
              \<lparr>unit_Name = ''kubelet.service'', unit_Contents = KubeletSystemdContents X,
               unit_Enabled = Some True\<rparr>]) (\<lambda>_.
     bind (case asset_Config installConfig of
             None \<Rightarrow> lift Panic
           | Some ic \<Rightarrow>
               appendUsers [\<lparr>user_Name = ''core'', SSHAuthorizedKeys = [SSHKey (Admin ic)]\<rparr>]) (\<lambda>_.
     bind (marshalConfig X) (\<lambda>data.
     setFile \<lparr>Filename = bootstrapIgnFilename, Data = data\<rparr>)))))))))))"

text \<open>A call of \<^verbatim>\<open>Generate\<close> on asset \<open>a\<close> starts with no request made yet.\<close>

definition start :: "Bootstrap \<Rightarrow> gen_state" where
  "start a = \<lparr>self = a, requested = []\<rparr>"

section \<open>Properties of actions\<close>

text \<open>An action leaves an observation \<open>g\<close> of the state as it was.\<close>

definition unchanged :: "(gen_state \<Rightarrow> 'v) \<Rightarrow> 'a action \<Rightarrow> bool" where
  "unchanged g m \<longleftrightarrow> (\<forall>s. g (snd (m s)) = g s)"

definition invariant :: "(gen_state \<Rightarrow> bool) \<Rightarrow> 'a action \<Rightarrow> bool" where
  "invariant I m \<longleftrightarrow> (\<forall>s. I s \<longrightarrow> I (snd (m s)))"

definition kept_on_failure :: "(gen_state \<Rightarrow> 'v) \<Rightarrow> unit action \<Rightarrow> bool" where
  "kept_on_failure g m \<longleftrightarrow> (\<forall>s. fst (m s) \<noteq> Ok () \<longrightarrow> g (snd (m s)) = g s)"

definition on_success :: "(gen_state \<Rightarrow> bool) \<Rightarrow> unit action \<Rightarrow> bool" where
  "on_success Q m \<longleftrightarrow> (\<forall>s. fst (m s) = Ok () \<longrightarrow> Q (snd (m s)))"

text \<open>Every request made so far is for a declared dependency.\<close>

definition declared :: "gen_state \<Rightarrow> bool" where
  "declared s \<longleftrightarrow> set (requested s) \<subseteq> set Dependencies"

text \<open>The asset holds a configuration and the one file with its serialization.\<close>

definition generated :: "externals \<Rightarrow> gen_state \<Rightarrow> bool" where
  "generated X s \<longleftrightarrow>
     (\<exists>c data. Config (self s) = Some c \<and> json_Marshal X c = Inr data \<and>
        File (self s) = Some \<lparr>Filename = ''bootstrap.ign'', Data = data\<rparr>)"

text \<open>The release image override that an environment carries: set and not empty.\<close>

definition effective_override :: "environ \<Rightarrow> string option" where
  "effective_override env =
     (case env releaseImageOverride of
        Some ri \<Rightarrow> if ri \<noteq> '''' then Some ri else None
      | None \<Rightarrow> None)"

text \<open>
  The files that the three \<^verbatim>\<open>range\<close> loops of \<^verbatim>\<open>addTemporaryBootkubeFiles\<close> append, in
  the order in which they append them: the files of the pod-checkpointer map, then those
  of the kube-proxy map, then those of the kube-dns map, each map's files in the order
  in which its entries are visited.
\<close>

definition temporaryFiles :: "externals \<Rightarrow> iteration \<Rightarrow> ignFile list" where
  "temporaryFiles X it =
     map (\<lambda>(name, data).
            FileFromString
              (filepath_Join X (filepath_Join X rootDir ''pod-checkpointer-operator-bootstrap'') name)
              420 data)
       (PodCheckpointer_visits it) @
     map (\<lambda>(name, data).
            FileFromString
              (filepath_Join X (filepath_Join X rootDir ''kube-proxy-operator-bootstrap'') name)
              420 data)
       (KubeProxy_visits it) @
     map (\<lambda>(name, data).
            FileFromString
              (filepath_Join X (filepath_Join X rootDir ''kube-dns-operator-bootstrap'') name)
              420 data)
       (KubeDNS_visits it)"

text \<open>
  Two configurations with the same version, units and users, whose storage files are the
  same, in the same order, before and after the files of the three loops, and hold in
  between what the loops append for the first and for the second iteration order.
\<close>

definition same_except_range_order ::
  "externals \<Rightarrow> iteration \<Rightarrow> iteration \<Rightarrow> Config \<Rightarrow> Config \<Rightarrow> bool"
where
  "same_except_range_order X it1 it2 c1 c2 \<longleftrightarrow>
     Ignition_Version c1 = Ignition_Version c2 \<and>
     Systemd_Units c1 = Systemd_Units c2 \<and>
     Passwd_Users c1 = Passwd_Users c2 \<and>
     (\<exists>before after.
        Storage_Files c1 = before @ temporaryFiles X it1 @ after \<and>
        Storage_Files c2 = before @ temporaryFiles X it2 @ after)"

text \<open>The states of two runs after the three loops.\<close>

definition sim :: "externals \<Rightarrow> iteration \<Rightarrow> iteration \<Rightarrow> gen_state \<Rightarrow> gen_state \<Rightarrow> bool" where
  "sim X it1 it2 s1 s2 \<longleftrightarrow>
     requested s1 = requested s2 \<and> File (self s1) = File (self s2) \<and>
     (\<exists>c1 c2. Config (self s1) = Some c1 \<and> Config (self s2) = Some c2 \<and>
        same_except_range_order X it1 it2 c1 c2)"

text \<open>Two actions that, from such states, give the same result and such states again.\<close>

definition lockstep ::
  "externals \<Rightarrow> iteration \<Rightarrow> iteration \<Rightarrow> 'a action \<Rightarrow> 'a action \<Rightarrow> bool"
where
  "lockstep X it1 it2 m1 m2 \<longleftrightarrow>
     (\<forall>s1 s2. sim X it1 it2 s1 s2 \<longrightarrow>
        fst (m1 s1) = fst (m2 s2) \<and> sim X it1 it2 (snd (m1 s1)) (snd (m2 s2)))"

text \<open>
  The outcomes of two runs: they failed in the same way and left the same state, or they
  left configurations that differ by the iteration order only.
\<close>

definition related_runs ::
  "externals \<Rightarrow> iteration \<Rightarrow> iteration \<Rightarrow>
   unit result \<times> gen_state \<Rightarrow> unit result \<times> gen_state \<Rightarrow> bool"
where
  "related_runs X it1 it2 o1 o2 \<longleftrightarrow>
     (fst o1 \<noteq> Ok () \<and> o1 = o2) \<or>
     (\<exists>c1 c2. Config (self (snd o1)) = Some c1 \<and> Config (self (snd o2)) = Some c2 \<and>
        same_except_range_order X it1 it2 c1 c2)"

definition agree ::
  "externals \<Rightarrow> iteration \<Rightarrow> iteration \<Rightarrow> unit action \<Rightarrow> unit action \<Rightarrow> bool"
where
  "agree X it1 it2 m1 m2 \<longleftrightarrow>
     (\<forall>s1 s2. sim X it1 it2 s1 s2 \<longrightarrow> related_runs X it1 it2 (m1 s1) (m2 s2))"

section \<open>A concrete installation\<close>

text \<open>
  The values below instantiate the parameters for the closed instances of the theorems.
  \<open>sample_Unmarshal\<close> stands in for \<^verbatim>\<open>json.Unmarshal\<close>: it decodes a document that
  holds just an ignition version, as \<^verbatim>\<open>encoding/json\<close> does, and rejects every other
  input. \<open>sample_Marshal\<close> stands in for \<^verbatim>\<open>json.Marshal\<close>: it writes the version and,
  in slice order as \<^verbatim>\<open>encoding/json\<close> does, the path and contents of every storage file;
  its output is not the JSON text.
\<close>

definition sample_InstallConfig :: InstallConfig where
  "sample_InstallConfig =
     \<lparr>ObjectMeta_Name = ''test'', ClusterID = ''c0ffee'',
      Admin = \<lparr>Email = ''admin@example.com'', Password = ''secret'', SSHKey = ''ssh-rsa AAAA''\<rparr>,
      BaseDomain = ''example.com'',
      Networking = \<lparr>Type = ''OpenshiftSDN'', ServiceCIDR = ''10.3.0.0/16'',
                     ClusterNetworks = [], PodCIDR = None\<rparr>,
      Machines = [\<lparr>Name = ''master'', Replicas = Some 3\<rparr>, \<lparr>Name = ''worker'', Replicas = None\<rparr>],
      Platform = \<lparr>AWS = None, Libvirt = None, OpenStack = None\<rparr>,
      PullSecret = ''{}''\<rparr>"

definition config_with :: "MachinePool list \<Rightarrow> InstallConfig" where
  "config_with ms = sample_InstallConfig\<lparr>Machines := ms\<rparr>"

definition sample_Unmarshal :: "string \<Rightarrow> error + Config" where
  \<open>sample_Unmarshal data =
     (let pre = ''{"ignition":{"version":"''; suf = ''"}}'';
          v = take (length data - length pre - length suf) (drop (length pre) data)
      in if data = pre @ v @ suf \<and> list_all (\<lambda>c. c \<in> set ''0123456789.'') v
         then Inr \<lparr>Ignition_Version = v, Storage_Files = [], Systemd_Units = [],
                   Passwd_Users = []\<rparr>
         else Inl (Failure ''unexpected end of JSON input''))\<close>

definition sample_Marshal :: "Config \<Rightarrow> error + string" where
  "sample_Marshal c =
     Inr (Ignition_Version c @
          concat (map (\<lambda>f. ''|'' @ Path f @ ''='' @ Contents f) (Storage_Files c)))"

definition stored_v1 :: File where
  \<open>stored_v1 = \<lparr>Filename = ''bootstrap.ign'', Data = ''{"ignition":{"version":"1.0.0"}}''\<rparr>\<close>

definition stored_v22 :: File where
  \<open>stored_v22 = \<lparr>Filename = ''bootstrap.ign'', Data = ''{"ignition":{"version":"2.2.0"}}''\<rparr>\<close>

definition stored_corrupt :: File where
  \<open>stored_corrupt = \<lparr>Filename = ''bootstrap.ign'', Data = ''{"ignition":''\<rparr>\<close>

definition config_of_version :: "string \<Rightarrow> Config" where
  "config_of_version v =
     \<lparr>Ignition_Version = v, Storage_Files = [], Systemd_Units = [], Passwd_Users = []\<rparr>"

text \<open>Three fetchers: a directory holding one file, an empty one, an unreadable one.\<close>

definition fetch_file :: "File \<Rightarrow> FileFetcher" where
  "fetch_file file name =
     (if name = Filename file then (Some file, None)
      else (None, Some (NotExist (''open '' @ name @ '': no such file or directory''))))"

definition fetch_nothing :: FileFetcher where
  "fetch_nothing name =
     (None, Some (NotExist (''open '' @ name @ '': no such file or directory'')))"

definition fetch_denied :: FileFetcher where
  "fetch_denied name = (None, Some (Failure (''open '' @ name @ '': permission denied'')))"

definition fresh :: Bootstrap where
  "fresh = \<lparr>Config = None, File = None\<rparr>"

definition loaded :: Bootstrap where
  "loaded = \<lparr>Config = Some (config_of_version ''2.2.0''), File = Some stored_v22\<rparr>"

definition sample_externals :: externals where
  "sample_externals =
     \<lparr>BootkubeSystemdContents = ''[Unit] bootkube'',
      TectonicSystemdContents = ''[Unit] tectonic'',
      ReportSystemdContents = ''[Unit] progress'',
      KubeletSystemdContents = ''[Unit] kubelet'',
      ReportShFileContents = ''report'',
      TectonicShFileContents = ''tectonic'',
      BootkubeShFileTemplate =
        \<lparr>tmpl_Name = ''bootkube.sh'', tmpl_Execute = (\<lambda>td. Some (''run '' @ ReleaseImage td))\<rparr>,
      BootkubeConfigOverrides =
        [\<lparr>tmpl_Name = ''kube-apiserver-config-overrides.yaml'',
          tmpl_Execute = (\<lambda>td. Some (''etcd '' @ EtcdCluster td))\<rparr>],
      BootkubeKubeDNSService =
        \<lparr>tmpl_Name = ''kube-dns-svc.yaml'', tmpl_Execute = (\<lambda>td. Some (''ip '' @ ClusterDNSIP td))\<rparr>,
      PodCheckpointerBootkubeManifests = [(''role.yaml'', ''R''), (''sa.yaml'', ''S'')],
      KubeProxyBootkubeManifests = [(''proxy.yaml'', ''P'')],
      KubeDNSBootkubeManifests = [],
      installconfig_ClusterDNSIP = (\<lambda>ic. case ic of None \<Rightarrow> Panic | Some c \<Rightarrow> Ok ''10.3.0.10''),
      json_Marshal = sample_Marshal,
      filepath_Join = (\<lambda>dir name. dir @ ''/'' @ name),
      MaxVersion = ''2.2.0'',
      make_limit = 1000\<rparr>"

definition single_externals :: externals where
  "single_externals =
     sample_externals\<lparr>PodCheckpointerBootkubeManifests := [(''role.yaml'', ''R'')]\<rparr>"

text \<open>
  A view that holds every declared dependency: the install configuration, and for
  each other asset one file and a certificate.
\<close>

definition sample_Parents :: Parents where
  "sample_Parents d =
     (if d = installconfig_InstallConfig
      then Some \<lparr>asset_Config = Some sample_InstallConfig, asset_Files = [], asset_Cert = ''''\<rparr>
      else if d \<in> set Dependencies
      then Some \<lparr>asset_Config = None,
                 asset_Files = [\<lparr>Filename = ''f'', Data = ''d''\<rparr>],
                 asset_Cert = ''c''\<rparr>
      else None)"

definition no_Parents :: Parents where
  "no_Parents d = None"

definition visits_a :: iteration where
  "visits_a =
     \<lparr>PodCheckpointer_visits = [(''role.yaml'', ''R'')],
      KubeProxy_visits = [(''proxy.yaml'', ''P'')], KubeDNS_visits = []\<rparr>"

definition visits_ab :: iteration where
  "visits_ab =
     \<lparr>PodCheckpointer_visits = [(''role.yaml'', ''R''), (''sa.yaml'', ''S'')],
      KubeProxy_visits = [(''proxy.yaml'', ''P'')], KubeDNS_visits = []\<rparr>"

definition visits_ba :: iteration where
  "visits_ba =
     \<lparr>PodCheckpointer_visits = [(''sa.yaml'', ''S''), (''role.yaml'', ''R'')],
      KubeProxy_visits = [(''proxy.yaml'', ''P'')], KubeDNS_visits = []\<rparr>"

definition env_unset :: environ where
  "env_unset name = None"

definition env_empty :: environ where
  "env_empty name =
     (if name = ''OPENSHIFT_INSTALL_RELEASE_IMAGE_OVERRIDE'' then Some '''' else None)"

definition env_override :: environ where
  "env_override name =
     (if name = ''OPENSHIFT_INSTALL_RELEASE_IMAGE_OVERRIDE'' then Some ''example.com/release:mine''
      else None)"

section \<open>MasterCount and Platform.Name\<close>

lemma MasterCount_loop_none:
  "\<forall>m\<in>set ms. \<not> (Name m = ''master'' \<and> Replicas m \<noteq> None) \<Longrightarrow> MasterCount_loop ms = 1"
  by (induction ms) auto

lemma MasterCount_loop_first:
  "\<forall>x\<in>set pre. \<not> (Name x = ''master'' \<and> Replicas x \<noteq> None) \<Longrightarrow>
   Name m = ''master'' \<Longrightarrow> Replicas m = Some r \<Longrightarrow>
   MasterCount_loop (pre @ m # post) = r"
  by (induction pre) auto

text \<open>
  C1, as amended: the pool that \<^verbatim>\<open>MasterCount\<close> looks for is named "master". It returns 1
  when no pool named "master" has an explicit replica value, and otherwise the explicit
  replica value of the first such pool in the list.
\<close>

theorem MasterCount_master:
  "((\<forall>m\<in>set (Machines c). Name m = ''master'' \<longrightarrow> Replicas m = None) \<longrightarrow> MasterCount c = 1) \<and>
   (Machines c = pre @ m # post \<and>
    (\<forall>x\<in>set pre. Name x = ''master'' \<longrightarrow> Replicas x = None) \<and>
    Name m = ''master'' \<and> Replicas m = Some r \<longrightarrow> MasterCount c = r)"
  unfolding MasterCount_def
  using MasterCount_loop_none [of "Machines c"] MasterCount_loop_first [of pre m r post]
  by auto

text \<open>
  A configuration without a "master" pool gives 1; with two "master" pools that have
  explicit replicas, after one that has none, it gives the replicas of the first of them.
\<close>

theorem MasterCount_master_witness:
  "MasterCount (config_with [\<lparr>Name = ''worker'', Replicas = Some 2\<rparr>]) = 1 \<and>
   MasterCount (config_with
     [\<lparr>Name = ''worker'', Replicas = Some 2\<rparr>, \<lparr>Name = ''master'', Replicas = None\<rparr>,
      \<lparr>Name = ''master'', Replicas = Some 3\<rparr>, \<lparr>Name = ''master'', Replicas = Some 5\<rparr>]) = 3"
  using
    MasterCount_master [where c = "config_with [\<lparr>Name = ''worker'', Replicas = Some 2\<rparr>]"]
    MasterCount_master [where
      c = "config_with
        [\<lparr>Name = ''worker'', Replicas = Some 2\<rparr>, \<lparr>Name = ''master'', Replicas = None\<rparr>,
         \<lparr>Name = ''master'', Replicas = Some 3\<rparr>, \<lparr>Name = ''master'', Replicas = Some 5\<rparr>]"
      and pre = "[\<lparr>Name = ''worker'', Replicas = Some 2\<rparr>, \<lparr>Name = ''master'', Replicas = None\<rparr>]"
      and m = "\<lparr>Name = ''master'', Replicas = Some 3\<rparr>"
      and post = "[\<lparr>Name = ''master'', Replicas = Some 5\<rparr>]" and r = 3]
  by (simp add: config_with_def)

text \<open>
  With the name "primary" the statement fails both ways: a pool named "primary" with
  three replicas is ignored, and without any pool named "primary" the result can be 3.
\<close>

theorem MasterCount_primary_counterexample:
  "MasterCount (config_with [\<lparr>Name = ''primary'', Replicas = Some 3\<rparr>]) = 1 \<and>
   MasterCount (config_with [\<lparr>Name = ''primary'', Replicas = Some 3\<rparr>]) \<noteq> 3 \<and>
   MasterCount (config_with [\<lparr>Name = ''master'', Replicas = Some 3\<rparr>]) = 3 \<and>
   MasterCount (config_with [\<lparr>Name = ''master'', Replicas = Some 3\<rparr>]) \<noteq> 1"
  by (simp add: MasterCount_def config_with_def)

text \<open>
  C10: \<^verbatim>\<open>Platform.Name\<close> is total: on a nil receiver and on a platform with no field set
  it returns the empty string; otherwise it returns the name of the first field set in
  the order AWS, Libvirt, OpenStack, whatever the later fields are.
\<close>

theorem Platform_Name_total:
  "Platform_Name None = '''' \<and>
   (AWS p = None \<and> Libvirt p = None \<and> OpenStack p = None \<longrightarrow> Platform_Name (Some p) = '''') \<and>
   (AWS p \<noteq> None \<longrightarrow> Platform_Name (Some p) = ''aws'') \<and>
   (AWS p = None \<and> Libvirt p \<noteq> None \<longrightarrow> Platform_Name (Some p) = ''libvirt'') \<and>
   (AWS p = None \<and> Libvirt p = None \<and> OpenStack p \<noteq> None \<longrightarrow>
      Platform_Name (Some p) = ''openstack'')"
  by (auto simp: Platform_Name_def PlatformNameAWS_def PlatformNameLibvirt_def
        PlatformNameOpenstack_def)

text \<open>No field, all three fields, the last two fields, and the last field only.\<close>

theorem Platform_Name_total_witness:
  "Platform_Name (Some \<lparr>AWS = None, Libvirt = None, OpenStack = None\<rparr>) = '''' \<and>
   Platform_Name (Some \<lparr>AWS = Some undefined, Libvirt = Some undefined,
                        OpenStack = Some undefined\<rparr>) = ''aws'' \<and>
   Platform_Name (Some \<lparr>AWS = None, Libvirt = Some undefined,
                        OpenStack = Some undefined\<rparr>) = ''libvirt'' \<and>
   Platform_Name (Some \<lparr>AWS = None, Libvirt = None, OpenStack = Some undefined\<rparr>) =
     ''openstack''"
  using
    Platform_Name_total [of "\<lparr>AWS = None, Libvirt = None, OpenStack = None\<rparr>"]
    Platform_Name_total [of "\<lparr>AWS = Some undefined, Libvirt = Some undefined,
                              OpenStack = Some undefined\<rparr>"]
    Platform_Name_total [of "\<lparr>AWS = None, Libvirt = Some undefined,
                              OpenStack = Some undefined\<rparr>"]
    Platform_Name_total [of "\<lparr>AWS = None, Libvirt = None, OpenStack = Some undefined\<rparr>"]
  by simp

section \<open>Load\<close>

lemma sample_Unmarshal_v1:
  "sample_Unmarshal (Data stored_v1) = Inr (config_of_version ''1.0.0'')"
  by (simp add: sample_Unmarshal_def stored_v1_def config_of_version_def)

lemma sample_Unmarshal_v22:
  "sample_Unmarshal (Data stored_v22) = Inr (config_of_version ''2.2.0'')"
  by (simp add: sample_Unmarshal_def stored_v22_def config_of_version_def)

lemma sample_Unmarshal_corrupt:
  "sample_Unmarshal (Data stored_corrupt) = Inl (Failure ''unexpected end of JSON input'')"
  by (simp add: sample_Unmarshal_def stored_corrupt_def)

lemma fetch_file_name:
  "Filename file = ''bootstrap.ign'' \<Longrightarrow> fetch_file file bootstrapIgnFilename = (Some file, None)"
  by (simp add: fetch_file_def bootstrapIgnFilename_def)

lemma Load_not_found_unchanged:
  "fst (Load u f a) \<noteq> Ok (True, None) \<Longrightarrow> snd (Load u f a) = a"
  by (cases "f bootstrapIgnFilename")
     (auto simp: Load_def split: option.splits sum.splits if_splits)

text \<open>
  C4: \<^verbatim>\<open>Load\<close> returns found = false with a nil error exactly when the fetcher returns an
  error that \<^verbatim>\<open>os.IsNotExist\<close> recognises. Every other fetcher error is returned as it
  is, and an unmarshalling error is returned wrapped, both with found = false.
\<close>

theorem Load_not_found_only_when_missing:
  "(fst (Load u f a) = Ok (False, None) \<longleftrightarrow>
      (\<exists>e. snd (f bootstrapIgnFilename) = Some e \<and> IsNotExist e)) \<and>
   (\<forall>e. snd (f bootstrapIgnFilename) = Some e \<and> \<not> IsNotExist e \<longrightarrow>
      fst (Load u f a) = Ok (False, Some e)) \<and>
   (\<forall>file e. f bootstrapIgnFilename = (Some file, None) \<and> u (Data file) = Inl e \<longrightarrow>
      fst (Load u f a) = Ok (False, Some (Wrap e ''failed to unmarshal'')))"
  by (cases "f bootstrapIgnFilename")
     (auto simp: Load_def split: option.splits sum.splits)

text \<open>An empty directory, an unreadable one, and one that holds a truncated file.\<close>

theorem Load_not_found_only_when_missing_witness:
  "fst (Load sample_Unmarshal fetch_nothing fresh) = Ok (False, None) \<and>
   IsNotExist (NotExist ''open bootstrap.ign: no such file or directory'') \<and>
   \<not> IsNotExist (Failure ''open bootstrap.ign: permission denied'') \<and>
   fst (Load sample_Unmarshal fetch_denied fresh) =
     Ok (False, Some (Failure ''open bootstrap.ign: permission denied'')) \<and>
   fetch_file stored_corrupt bootstrapIgnFilename = (Some stored_corrupt, None) \<and>
   fst (Load sample_Unmarshal (fetch_file stored_corrupt) fresh) =
     Ok (False, Some (Wrap (Failure ''unexpected end of JSON input'') ''failed to unmarshal''))"
  using Load_not_found_only_when_missing [of sample_Unmarshal fetch_nothing fresh]
    Load_not_found_only_when_missing [of sample_Unmarshal fetch_denied fresh]
    Load_not_found_only_when_missing [of sample_Unmarshal "fetch_file stored_corrupt" fresh]
    sample_Unmarshal_corrupt
  by (simp add: fetch_nothing_def fetch_denied_def fetch_file_def bootstrapIgnFilename_def
        stored_corrupt_def)

text \<open>
  C5, as amended: \<^verbatim>\<open>Load\<close> does not look at the version that the stored content
  declares. Whenever the fetched data unmarshals without error, \<^verbatim>\<open>Load\<close> returns
  found = true with the decoded configuration, whatever its version; once a file has been
  fetched, it returns an error only when unmarshalling fails.
\<close>

theorem Load_accepts_any_version:
  "f bootstrapIgnFilename = (Some file, None) \<Longrightarrow>
   (u (Data file) = Inr config \<longrightarrow>
      Load u f a = (Ok (True, None), a\<lparr>File := Some file, Config := Some config\<rparr>)) \<and>
   (fst (Load u f a) = Ok (False, err) \<longrightarrow> (\<exists>e. u (Data file) = Inl e))"
  by (auto simp: Load_def split: sum.splits)

text \<open>A stored version 1.0.0 is loaded; a truncated file is rejected by the decoder.\<close>

theorem Load_accepts_any_version_witness:
  "fetch_file stored_v1 bootstrapIgnFilename = (Some stored_v1, None) \<and>
   Load sample_Unmarshal (fetch_file stored_v1) fresh =
     (Ok (True, None), \<lparr>Config = Some (config_of_version ''1.0.0''), File = Some stored_v1\<rparr>) \<and>
   fst (Load sample_Unmarshal (fetch_file stored_corrupt) fresh) =
     Ok (False, Some (Wrap (Failure ''unexpected end of JSON input'') ''failed to unmarshal'')) \<and>
   sample_Unmarshal (Data stored_corrupt) = Inl (Failure ''unexpected end of JSON input'')"
proof -
  have a: "fetch_file stored_v1 bootstrapIgnFilename = (Some stored_v1, None)"
    by (simp add: fetch_file_name stored_v1_def)
  have b: "fetch_file stored_corrupt bootstrapIgnFilename = (Some stored_corrupt, None)"
    by (simp add: fetch_file_name stored_corrupt_def)
  have c: "fst (Load sample_Unmarshal (fetch_file stored_corrupt) fresh) =
     Ok (False, Some (Wrap (Failure ''unexpected end of JSON input'') ''failed to unmarshal''))"
    by (simp add: Load_def b sample_Unmarshal_corrupt)
  from
    Load_accepts_any_version [of "fetch_file stored_v1" stored_v1 sample_Unmarshal
      "config_of_version ''1.0.0''" fresh, OF a]
    Load_accepts_any_version [of "fetch_file stored_corrupt" stored_corrupt sample_Unmarshal
      _ fresh, OF b]
    a c sample_Unmarshal_v1 sample_Unmarshal_corrupt
  show ?thesis by (simp add: fresh_def)
qed

text \<open>
  Stored content that declares version 1.0.0, where the supported version is 2.2.0, is
  loaded with found = true.
\<close>

theorem Load_rejects_other_version_counterexample:
  "MaxVersion sample_externals = ''2.2.0'' \<and>
   fetch_file stored_v1 bootstrapIgnFilename = (Some stored_v1, None) \<and>
   sample_Unmarshal (Data stored_v1) = Inr (config_of_version ''1.0.0'') \<and>
   Ignition_Version (config_of_version ''1.0.0'') \<noteq> MaxVersion sample_externals \<and>
   Load sample_Unmarshal (fetch_file stored_v1) fresh =
     (Ok (True, None), \<lparr>Config = Some (config_of_version ''1.0.0''), File = Some stored_v1\<rparr>)"
  using sample_Unmarshal_v1
  by (simp add: Load_def fetch_file_name stored_v1_def sample_externals_def
        config_of_version_def fresh_def)

text \<open>
  C6: when \<^verbatim>\<open>Load\<close> returns found = true, the fetcher returned a file and no error, the
  file's data unmarshalled to a configuration, and the asset holds exactly that
  configuration and that file. \<^verbatim>\<open>Load\<close> has no access to the dependencies.
\<close>

theorem Load_found_state:
  "fst (Load u f a) = Ok (True, e) \<Longrightarrow>
   \<exists>file config. f bootstrapIgnFilename = (Some file, None) \<and> u (Data file) = Inr config \<and>
     e = None \<and> Config (snd (Load u f a)) = Some config \<and> File (snd (Load u f a)) = Some file"
  by (cases "f bootstrapIgnFilename")
     (auto simp: Load_def split: option.splits sum.splits if_splits)

theorem Load_found_state_witness:
  "fst (Load sample_Unmarshal (fetch_file stored_v22) fresh) = Ok (True, None) \<and>
   Config (snd (Load sample_Unmarshal (fetch_file stored_v22) fresh)) =
     Some (config_of_version ''2.2.0'') \<and>
   File (snd (Load sample_Unmarshal (fetch_file stored_v22) fresh)) = Some stored_v22"
proof -
  have fetched: "fetch_file stored_v22 bootstrapIgnFilename = (Some stored_v22, None)"
    by (simp add: fetch_file_name stored_v22_def)
  have found: "fst (Load sample_Unmarshal (fetch_file stored_v22) fresh) = Ok (True, None)"
    by (simp add: Load_def fetched sample_Unmarshal_v22)
  from Load_found_state [OF found] fetched sample_Unmarshal_v22 found
  show ?thesis by auto
qed

text \<open>
  C9: whenever \<^verbatim>\<open>Load\<close> returns found = false, with or without an error, the asset is as
  it was before the call.
\<close>

theorem Load_failure_keeps_asset:
  "fst (Load u f a) = Ok (False, e) \<Longrightarrow> snd (Load u f a) = a"
  by (cases "f bootstrapIgnFilename")
     (auto simp: Load_def split: option.splits sum.splits if_splits)

text \<open>An asset loaded before keeps its configuration and file through two failed loads.\<close>

theorem Load_failure_keeps_asset_witness:
  "fst (Load sample_Unmarshal (fetch_file stored_corrupt) loaded) =
     Ok (False, Some (Wrap (Failure ''unexpected end of JSON input'') ''failed to unmarshal'')) \<and>
   snd (Load sample_Unmarshal (fetch_file stored_corrupt) loaded) = loaded \<and>
   fst (Load sample_Unmarshal fetch_nothing loaded) = Ok (False, None) \<and>
   snd (Load sample_Unmarshal fetch_nothing loaded) = loaded"
proof -
  have fetched: "fetch_file stored_corrupt bootstrapIgnFilename = (Some stored_corrupt, None)"
    by (simp add: fetch_file_name stored_corrupt_def)
  have a: "fst (Load sample_Unmarshal (fetch_file stored_corrupt) loaded) =
     Ok (False, Some (Wrap (Failure ''unexpected end of JSON input'') ''failed to unmarshal''))"
    by (simp add: Load_def fetched sample_Unmarshal_corrupt)
  have b: "fst (Load sample_Unmarshal fetch_nothing loaded) = Ok (False, None)"
    by (simp add: Load_def fetch_nothing_def)
  from a b Load_failure_keeps_asset [OF a] Load_failure_keeps_asset [OF b]
  show ?thesis by simp
qed

section \<open>Rules for actions\<close>

lemma invariant_bind:
  "invariant I m \<Longrightarrow> (\<And>x. invariant I (f x)) \<Longrightarrow> invariant I (bind m f)"
  unfolding invariant_def bind_def
  by (auto split: prod.splits result.splits)

lemma invariant_ret: "invariant I (ret x)"
  by (simp add: invariant_def ret_def)

lemma invariant_forEach:
  "(\<And>x. x \<in> set xs \<Longrightarrow> invariant I (body x)) \<Longrightarrow> invariant I (forEach xs body)"
  by (induction xs) (auto intro: invariant_bind invariant_ret)

lemma unchanged_bind:
  "unchanged g m \<Longrightarrow> (\<And>x. unchanged g (f x)) \<Longrightarrow> unchanged g (bind m f)"
  unfolding unchanged_def bind_def
  by (auto split: prod.splits result.splits) (metis snd_conv)+

lemma unchanged_ret: "unchanged g (ret x)"
  by (simp add: unchanged_def ret_def)

lemma unchanged_lift: "unchanged g (lift r)"
  by (simp add: unchanged_def lift_def)

lemma unchanged_forEach:
  "(\<And>x. x \<in> set xs \<Longrightarrow> unchanged g (body x)) \<Longrightarrow> unchanged g (forEach xs body)"
  by (induction xs) (auto intro: unchanged_bind unchanged_ret)

lemma kept_on_failure_bind:
  "unchanged g m \<Longrightarrow> (\<And>x. kept_on_failure g (f x)) \<Longrightarrow> kept_on_failure g (bind m f)"
  unfolding unchanged_def kept_on_failure_def bind_def
  by (auto split: prod.splits result.splits) (metis snd_conv)+

lemma kept_on_failure_setFile: "kept_on_failure g (setFile f)"
  by (simp add: kept_on_failure_def setFile_def)

lemma on_success_bind:
  "(\<And>x. on_success Q (f x)) \<Longrightarrow> on_success Q (bind m f)"
  unfolding on_success_def bind_def
  by (auto split: prod.splits result.splits)

section \<open>Generate asks for declared dependencies only\<close>

lemma requested_appendFiles: "unchanged requested (appendFiles fs)"
  by (simp add: unchanged_def appendFiles_def split: option.splits)

lemma requested_appendUnits: "unchanged requested (appendUnits us)"
  by (simp add: unchanged_def appendUnits_def split: option.splits)

lemma requested_appendUsers: "unchanged requested (appendUsers us)"
  by (simp add: unchanged_def appendUsers_def split: option.splits)

lemma requested_setConfig: "unchanged requested (setConfig c)"
  by (simp add: unchanged_def setConfig_def)

lemma requested_setFile: "unchanged requested (setFile f)"
  by (simp add: unchanged_def setFile_def)

lemma requested_marshalConfig: "unchanged requested (marshalConfig X)"
  by (simp add: unchanged_def marshalConfig_def split: option.splits sum.splits)

lemma requested_applyTemplateData: "unchanged requested (applyTemplateData t td)"
  by (simp add: applyTemplateData_def unchanged_lift)

lemma declared_unchanged: "unchanged requested m \<Longrightarrow> invariant declared m"
  by (simp add: unchanged_def invariant_def declared_def)

lemma declared_Get: "d \<in> set Dependencies \<Longrightarrow> invariant declared (Get p d)"
  by (simp add: invariant_def declared_def Get_def Let_def split: option.splits)

lemmas declared_step =
  invariant_bind invariant_forEach invariant_ret declared_Get
  requested_appendFiles [THEN declared_unchanged]
  requested_appendUnits [THEN declared_unchanged]
  requested_appendUsers [THEN declared_unchanged]
  requested_setConfig [THEN declared_unchanged]
  requested_setFile [THEN declared_unchanged]
  requested_marshalConfig [THEN declared_unchanged]
  requested_applyTemplateData [THEN declared_unchanged]
  unchanged_lift [THEN declared_unchanged]

lemma declared_addBootstrapFiles: "invariant declared (addBootstrapFiles X p)"
  unfolding addBootstrapFiles_def
  by (auto simp: Dependencies_def intro!: declared_step split: list.splits)

lemma declared_addBootkubeFiles: "invariant declared (addBootkubeFiles X p td)"
  unfolding addBootkubeFiles_def Let_def
  by (auto simp: Dependencies_def intro!: declared_step)

lemma declared_addTemporaryBootkubeFiles:
  "invariant declared (addTemporaryBootkubeFiles X it td)"
  unfolding addTemporaryBootkubeFiles_def Let_def
  by (auto intro!: declared_step)

lemma declared_addTectonicFiles: "invariant declared (addTectonicFiles X p)"
  unfolding addTectonicFiles_def
  by (auto simp: Dependencies_def intro!: declared_step)

lemma declared_addTLSCertFiles: "invariant declared (addTLSCertFiles X p)"
  unfolding addTLSCertFiles_def
  by (auto simp: Dependencies_def intro!: declared_step)

lemma declared_Generate: "invariant declared (Generate X env it p)"
  unfolding Generate_def
  by (auto simp: Dependencies_def split: option.splits
        intro!: declared_step declared_addBootstrapFiles declared_addBootkubeFiles
        declared_addTemporaryBootkubeFiles declared_addTectonicFiles declared_addTLSCertFiles)

text \<open>
  C8: every descriptor that \<^verbatim>\<open>Generate\<close> passes to \<^verbatim>\<open>Parents.Get\<close>, in its own body or
  in one of its helpers, and whether it then succeeds, fails or panics, is a descriptor
  of the sequence that \<^verbatim>\<open>Dependencies\<close> returns.
\<close>

theorem Generate_requests_declared:
  "set (requested (snd (Generate X env it p (start a)))) \<subseteq> set Dependencies"
  using declared_Generate [of X env it p]
  by (simp add: invariant_def declared_def start_def)

text \<open>
  The requests of a run that succeeds: twenty calls for nineteen of the twenty declared
  dependencies.
\<close>

theorem Generate_requests_declared_witness:
  "requested (snd (Generate sample_externals env_unset visits_ab sample_Parents (start fresh))) =
     [installconfig_InstallConfig, kubeconfig_Kubelet, kubeconfig_Admin, manifests_Manifests,
      manifests_Tectonic, tls_RootCA, tls_KubeCA, tls_AggregatorCA, tls_ServiceServingCA,
      tls_EtcdCA, tls_ClusterAPIServerCertKey, tls_EtcdClientCertKey, tls_APIServerCertKey,
      tls_OpenshiftAPIServerCertKey, tls_APIServerProxyCertKey, tls_AdminCertKey,
      tls_KubeletCertKey, tls_MCSCertKey, tls_ServiceAccountKeyPair, tls_EtcdClientCertKey] \<and>
   set (requested (snd (Generate sample_externals env_unset visits_ab sample_Parents
     (start fresh)))) \<subseteq> set Dependencies"
proof -
  have "requested (snd (Generate sample_externals env_unset visits_ab sample_Parents
      (start fresh))) =
     [installconfig_InstallConfig, kubeconfig_Kubelet, kubeconfig_Admin, manifests_Manifests,
      manifests_Tectonic, tls_RootCA, tls_KubeCA, tls_AggregatorCA, tls_ServiceServingCA,
      tls_EtcdCA, tls_ClusterAPIServerCertKey, tls_EtcdClientCertKey, tls_APIServerCertKey,
      tls_OpenshiftAPIServerCertKey, tls_APIServerProxyCertKey, tls_AdminCertKey,
      tls_KubeletCertKey, tls_MCSCertKey, tls_ServiceAccountKeyPair, tls_EtcdClientCertKey]"
    by code_simp
  with Generate_requests_declared [of sample_externals env_unset visits_ab sample_Parents fresh]
  show ?thesis by simp
qed

section \<open>The file that Generate leaves\<close>

lemma File_Get: "unchanged (\<lambda>s. File (self s)) (Get p d)"
  by (simp add: unchanged_def Get_def Let_def split: option.splits)

lemma File_appendFiles: "unchanged (\<lambda>s. File (self s)) (appendFiles fs)"
  by (simp add: unchanged_def appendFiles_def split: option.splits)

lemma File_appendUnits: "unchanged (\<lambda>s. File (self s)) (appendUnits us)"
  by (simp add: unchanged_def appendUnits_def split: option.splits)

lemma File_appendUsers: "unchanged (\<lambda>s. File (self s)) (appendUsers us)"
  by (simp add: unchanged_def appendUsers_def split: option.splits)

lemma File_setConfig: "unchanged (\<lambda>s. File (self s)) (setConfig c)"
  by (simp add: unchanged_def setConfig_def)

lemma File_marshalConfig: "unchanged (\<lambda>s. File (self s)) (marshalConfig X)"
  by (simp add: unchanged_def marshalConfig_def split: option.splits sum.splits)

lemma File_applyTemplateData: "unchanged (\<lambda>s. File (self s)) (applyTemplateData t td)"
  by (simp add: applyTemplateData_def unchanged_lift)

lemmas File_step =
  unchanged_bind unchanged_forEach unchanged_lift unchanged_ret File_Get File_appendFiles
  File_appendUnits File_appendUsers File_setConfig File_marshalConfig File_applyTemplateData

lemma File_addBootstrapFiles: "unchanged (\<lambda>s. File (self s)) (addBootstrapFiles X p)"
  unfolding addBootstrapFiles_def
  by (auto intro!: File_step split: list.splits)

lemma File_addBootkubeFiles: "unchanged (\<lambda>s. File (self s)) (addBootkubeFiles X p td)"
  unfolding addBootkubeFiles_def Let_def
  by (auto intro!: File_step)

lemma File_addTemporaryBootkubeFiles:
  "unchanged (\<lambda>s. File (self s)) (addTemporaryBootkubeFiles X it td)"
  unfolding addTemporaryBootkubeFiles_def Let_def
  by (auto intro!: File_step)

lemma File_addTectonicFiles: "unchanged (\<lambda>s. File (self s)) (addTectonicFiles X p)"
  unfolding addTectonicFiles_def
  by (auto intro!: File_step)

lemma File_addTLSCertFiles: "unchanged (\<lambda>s. File (self s)) (addTLSCertFiles X p)"
  unfolding addTLSCertFiles_def
  by (auto intro!: File_step)

lemma Generate_failure_keeps_File:
  "kept_on_failure (\<lambda>s. File (self s)) (Generate X env it p)"
  unfolding Generate_def
  by (auto split: option.splits
        intro!: kept_on_failure_bind kept_on_failure_setFile File_step File_addBootstrapFiles
        File_addBootkubeFiles File_addTemporaryBootkubeFiles File_addTectonicFiles
        File_addTLSCertFiles)

lemma generated_last:
  "on_success (generated X)
     (bind (marshalConfig X) (\<lambda>data. setFile \<lparr>Filename = bootstrapIgnFilename, Data = data\<rparr>))"
  by (auto simp: on_success_def generated_def bind_def marshalConfig_def setFile_def
        bootstrapIgnFilename_def split: option.splits sum.splits)

lemma Generate_success_generated: "on_success (generated X) (Generate X env it p)"
  unfolding Generate_def
  by (intro on_success_bind generated_last)

text \<open>
  C7: a fresh asset has no files, and a call of \<^verbatim>\<open>Generate\<close> or \<^verbatim>\<open>Load\<close> that does not
  succeed leaves the files as they were. After a successful \<^verbatim>\<open>Generate\<close> the asset holds
  a configuration, and \<^verbatim>\<open>Files\<close> returns exactly one file, named bootstrap.ign, whose
  data is the serialization of that configuration.
\<close>

theorem Files_before_and_after_Generate:
  "Files \<lparr>Config = None, File = None\<rparr> = [] \<and>
   (fst (Generate X env it p (start a)) \<noteq> Ok () \<longrightarrow>
      Files (self (snd (Generate X env it p (start a)))) = Files a) \<and>
   (fst (Load u f a) \<noteq> Ok (True, None) \<longrightarrow> Files (snd (Load u f a)) = Files a) \<and>
   (fst (Generate X env it p (start a)) = Ok () \<longrightarrow>
      (\<exists>c data. Config (self (snd (Generate X env it p (start a)))) = Some c \<and>
         json_Marshal X c = Inr data \<and>
         Files (self (snd (Generate X env it p (start a)))) =
           [\<lparr>Filename = ''bootstrap.ign'', Data = data\<rparr>]))"
proof (intro conjI impI)
  show "Files \<lparr>Config = None, File = None\<rparr> = []"
    by (simp add: Files_def)
next
  assume "fst (Generate X env it p (start a)) \<noteq> Ok ()"
  with Generate_failure_keeps_File [of X env it p]
  have "File (self (snd (Generate X env it p (start a)))) = File a"
    by (simp add: kept_on_failure_def start_def)
  then show "Files (self (snd (Generate X env it p (start a)))) = Files a"
    by (simp add: Files_def)
next
  assume "fst (Load u f a) \<noteq> Ok (True, None)"
  then have "snd (Load u f a) = a"
    by (rule Load_not_found_unchanged)
  then show "Files (snd (Load u f a)) = Files a"
    by simp
next
  assume "fst (Generate X env it p (start a)) = Ok ()"
  with Generate_success_generated [of X env it p]
  have "generated X (snd (Generate X env it p (start a)))"
    by (simp add: on_success_def)
  then show "\<exists>c data. Config (self (snd (Generate X env it p (start a)))) = Some c \<and>
         json_Marshal X c = Inr data \<and>
         Files (self (snd (Generate X env it p (start a)))) =
           [\<lparr>Filename = ''bootstrap.ign'', Data = data\<rparr>]"
    by (auto simp: generated_def Files_def)
qed

text \<open>
  On a fresh asset: a run without dependencies panics and a load from an empty directory
  finds nothing, both leaving no files; a run with all dependencies succeeds and leaves
  bootstrap.ign.
\<close>

theorem Files_before_and_after_Generate_witness:
  "Files fresh = [] \<and>
   fst (Generate sample_externals env_unset visits_ab no_Parents (start fresh)) = Panic \<and>
   Files (self (snd (Generate sample_externals env_unset visits_ab no_Parents (start fresh)))) = [] \<and>
   fst (Load sample_Unmarshal fetch_nothing fresh) = Ok (False, None) \<and>
   Files (snd (Load sample_Unmarshal fetch_nothing fresh)) = [] \<and>
   fst (Generate sample_externals env_unset visits_ab sample_Parents (start fresh)) = Ok () \<and>
   (\<exists>c data.
      Config (self (snd (Generate sample_externals env_unset visits_ab sample_Parents
        (start fresh)))) = Some c \<and>
      sample_Marshal c = Inr data \<and>
      Files (self (snd (Generate sample_externals env_unset visits_ab sample_Parents
        (start fresh)))) = [\<lparr>Filename = ''bootstrap.ign'', Data = data\<rparr>])"
proof -
  have none: "fst (Generate sample_externals env_unset visits_ab no_Parents (start fresh)) = Panic"
    by code_simp
  have missing: "fst (Load sample_Unmarshal fetch_nothing fresh) = Ok (False, None)"
    by (simp add: Load_def fetch_nothing_def)
  have ok: "fst (Generate sample_externals env_unset visits_ab sample_Parents (start fresh)) = Ok ()"
    by code_simp
  have marshal: "json_Marshal sample_externals = sample_Marshal"
    by (simp add: sample_externals_def)
  from none missing ok
    Files_before_and_after_Generate [of sample_externals env_unset visits_ab no_Parents fresh
      sample_Unmarshal fetch_nothing]
    Files_before_and_after_Generate [of sample_externals env_unset visits_ab sample_Parents fresh
      sample_Unmarshal fetch_nothing]
  show ?thesis
    by (simp add: marshal fresh_def)
qed

section \<open>Generate and the process environment\<close>

lemma getTemplateData_env:
  "effective_override env1 = effective_override env2 \<Longrightarrow>
   getTemplateData X env1 ic = getTemplateData X env2 ic"
  by (auto simp: effective_override_def getTemplateData_def Let_def
        split: option.splits if_splits result.splits)

lemma getTemplateData_ReleaseImage:
  "getTemplateData X env ic = Ok td \<Longrightarrow>
   ReleaseImage td =
     (case effective_override env of Some ri \<Rightarrow> ri | None \<Rightarrow> defaultReleaseImage)"
  by (auto simp: effective_override_def getTemplateData_def Let_def
        split: option.splits if_splits result.splits)

text \<open>
  C2, as amended: \<^verbatim>\<open>Generate\<close> reads the process environment, in \<^verbatim>\<open>getTemplateData\<close>, and
  reads one variable of it, OPENSHIFT_INSTALL_RELEASE_IMAGE_OVERRIDE. When the variable is
  set and not empty, its value is the release image of the template data; when it is unset
  or empty, the default release image is. Two runs on the same dependencies and content
  that visit the manifest maps in the same order, in environments that give this variable
  the same value, or that each leave it unset or empty, have the same result and leave the
  same asset, whatever else the environments hold.
\<close>

theorem Generate_reads_only_override:
  "(env1 releaseImageOverride = env2 releaseImageOverride \<or>
    (env1 releaseImageOverride \<in> {None, Some ''''} \<and>
     env2 releaseImageOverride \<in> {None, Some ''''}) \<longrightarrow>
    Generate X env1 it p s = Generate X env2 it p s) \<and>
   (getTemplateData X env ic = Ok td \<and> env releaseImageOverride = Some ri \<and> ri \<noteq> '''' \<longrightarrow>
    ReleaseImage td = ri) \<and>
   (getTemplateData X env ic = Ok td \<and> env releaseImageOverride \<in> {None, Some ''''} \<longrightarrow>
    ReleaseImage td = defaultReleaseImage)"
proof (intro conjI impI)
  assume "env1 releaseImageOverride = env2 releaseImageOverride \<or>
    (env1 releaseImageOverride \<in> {None, Some ''''} \<and>
     env2 releaseImageOverride \<in> {None, Some ''''})"
  then have "effective_override env1 = effective_override env2"
    by (auto simp: effective_override_def)
  then have "\<And>ic. getTemplateData X env1 ic = getTemplateData X env2 ic"
    by (rule getTemplateData_env)
  then show "Generate X env1 it p s = Generate X env2 it p s"
    by (simp add: Generate_def)
next
  assume "getTemplateData X env ic = Ok td \<and> env releaseImageOverride = Some ri \<and> ri \<noteq> ''''"
  then show "ReleaseImage td = ri"
    using getTemplateData_ReleaseImage [of X env ic td]
    by (simp add: effective_override_def)
next
  assume "getTemplateData X env ic = Ok td \<and> env releaseImageOverride \<in> {None, Some ''''}"
  then show "ReleaseImage td = defaultReleaseImage"
    using getTemplateData_ReleaseImage [of X env ic td]
    by (auto simp: effective_override_def)
qed

text \<open>
  An environment without the variable and one where it is empty give the same run, with
  the default release image; an environment that sets the variable gives its value.
\<close>

theorem Generate_reads_only_override_witness:
  "env_unset releaseImageOverride = None \<and> env_empty releaseImageOverride = Some '''' \<and>
   Generate sample_externals env_unset visits_ab sample_Parents (start fresh) =
   Generate sample_externals env_empty visits_ab sample_Parents (start fresh) \<and>
   env_override releaseImageOverride = Some ''example.com/release:mine'' \<and>
   (\<exists>td. getTemplateData sample_externals env_override (Some sample_InstallConfig) = Ok td \<and>
      ReleaseImage td = ''example.com/release:mine'') \<and>
   (\<exists>td. getTemplateData sample_externals env_empty (Some sample_InstallConfig) = Ok td \<and>
      ReleaseImage td = defaultReleaseImage)"
proof -
  have env: "env_unset releaseImageOverride = None" "env_empty releaseImageOverride = Some ''''"
    "env_override releaseImageOverride = Some ''example.com/release:mine''"
    by (simp_all add: env_unset_def env_empty_def env_override_def releaseImageOverride_def)
  have "(case getTemplateData sample_externals env_override (Some sample_InstallConfig) of
      Ok td \<Rightarrow> True | _ \<Rightarrow> False)"
    by code_simp
  then obtain td1 where
    td1: "getTemplateData sample_externals env_override (Some sample_InstallConfig) = Ok td1"
    by (auto split: result.splits)
  have "(case getTemplateData sample_externals env_empty (Some sample_InstallConfig) of
      Ok td \<Rightarrow> True | _ \<Rightarrow> False)"
    by code_simp
  then obtain td2 where
    td2: "getTemplateData sample_externals env_empty (Some sample_InstallConfig) = Ok td2"
    by (auto split: result.splits)
  from env td1 td2
    Generate_reads_only_override [of env_unset env_empty sample_externals visits_ab
      sample_Parents "start fresh" env_override "Some sample_InstallConfig" td1
      "''example.com/release:mine''"]
    Generate_reads_only_override [of env_unset env_empty sample_externals visits_ab
      sample_Parents "start fresh" env_empty "Some sample_InstallConfig" td2]
  show ?thesis by simp
qed

text \<open>
  Two runs on the same dependencies, with the maps visited in the same order, one without
  the variable and one with it set: both succeed, and the data of the two files differ.
\<close>

theorem Generate_ignores_environment_counterexample:
  "fst (Generate sample_externals env_unset visits_ab sample_Parents (start fresh)) = Ok () \<and>
   fst (Generate sample_externals env_override visits_ab sample_Parents (start fresh)) = Ok () \<and>
   map_option Data (File (self (snd
     (Generate sample_externals env_unset visits_ab sample_Parents (start fresh))))) \<noteq>
   map_option Data (File (self (snd
     (Generate sample_externals env_override visits_ab sample_Parents (start fresh)))))"
  by code_simp

section \<open>Generate and the order of map iteration\<close>

text \<open>A loop that appends one file per element appends the files of all elements.\<close>

lemma forEach_appendFiles:
  "forEach es (\<lambda>e. appendFiles [g e]) s =
     (if es = [] then (Ok (), s) else appendFiles (map g es) s)"
proof (induction es arbitrary: s)
  case Nil
  show ?case by (simp add: ret_def)
next
  case (Cons e es)
  show ?case
  proof (cases "Config (self s)")
    case None
    then show ?thesis by (simp add: bind_def appendFiles_def)
  next
    case (Some c)
    let ?s1 = "s\<lparr>self := (self s)\<lparr>Config := Some (c\<lparr>Storage_Files := Storage_Files c @ [g e]\<rparr>)\<rparr>\<rparr>"
    have "forEach (e # es) (\<lambda>e. appendFiles [g e]) s = forEach es (\<lambda>e. appendFiles [g e]) ?s1"
      using Some by (simp add: bind_def appendFiles_def)
    also have "\<dots> = (if es = [] then (Ok (), ?s1) else appendFiles (map g es) ?s1)"
      by (rule Cons.IH)
    also have "\<dots> = appendFiles (map g (e # es)) s"
      using Some by (simp add: appendFiles_def)
    finally show ?thesis by simp
  qed
qed

lemma appendFiles_Nil: "Config (self s) = Some c \<Longrightarrow> appendFiles [] s = (Ok (), s)"
proof -
  assume c: "Config (self s) = Some c"
  have "(self s)\<lparr>Config := Some c\<rparr> = self s"
    using c by (cases "self s") simp
  then have "s\<lparr>self := (self s)\<lparr>Config := Some c\<rparr>\<rparr> = s"
    by (cases s) simp
  then show ?thesis
    using c by (simp add: appendFiles_def)
qed

lemma range_appendFiles:
  "Config (self s) = Some c \<Longrightarrow>
   forEach es (\<lambda>(name, data). appendFiles [F name data]) s =
     appendFiles (map (\<lambda>(name, data). F name data) es) s"
proof -
  assume c: "Config (self s) = Some c"
  have body: "(\<lambda>(name, data). appendFiles [F name data]) = (\<lambda>e. appendFiles [case_prod F e])"
    by (simp add: fun_eq_iff split: prod.splits)
  show ?thesis
    unfolding body forEach_appendFiles
    by (simp add: appendFiles_Nil [OF c])
qed

lemma range_no_Config:
  "Config (self s) = None \<Longrightarrow>
   forEach es (\<lambda>(name, data). appendFiles [F name data]) s =
     (if es = [] then (Ok (), s) else (Panic, s))"
  by (cases es) (auto simp: ret_def bind_def appendFiles_def)

text \<open>
  What \<^verbatim>\<open>addTemporaryBootkubeFiles\<close> does, in one step for the three loops: it depends on
  the iteration order through the files that the loops append, and on nothing else.
\<close>

lemma addTemporaryBootkubeFiles_closed:
  "addTemporaryBootkubeFiles X it td s =
     (case Config (self s) of
        None \<Rightarrow> (Panic, s)
      | Some c \<Rightarrow>
          bind (appendFiles (temporaryFiles X it)) (\<lambda>_.
          bind (applyTemplateData (BootkubeKubeDNSService X) td) (\<lambda>str.
          appendFiles
            [FileFromString
               (filepath_Join X (filepath_Join X rootDir ''kube-dns-operator-bootstrap'')
                  ''kube-dns-svc.yaml'') 420 str])) s)"
proof (cases "Config (self s)")
  case None
  then show ?thesis
    by (simp add: addTemporaryBootkubeFiles_def Let_def bind_def range_no_Config
          applyTemplateData_def lift_def appendFiles_def split: option.splits)
next
  case (Some c)
  let ?P = "map (\<lambda>(name, data). FileFromString
      (filepath_Join X (filepath_Join X rootDir ''pod-checkpointer-operator-bootstrap'') name)
      420 data) (PodCheckpointer_visits it)"
  let ?s1 = "s\<lparr>self := (self s)\<lparr>Config := Some (c\<lparr>Storage_Files := Storage_Files c @ ?P\<rparr>)\<rparr>\<rparr>"
  let ?K = "map (\<lambda>(name, data). FileFromString
      (filepath_Join X (filepath_Join X rootDir ''kube-proxy-operator-bootstrap'') name)
      420 data) (KubeProxy_visits it)"
  let ?s2 = "s\<lparr>self := (self s)\<lparr>Config := Some (c\<lparr>Storage_Files := Storage_Files c @ ?P @ ?K\<rparr>)\<rparr>\<rparr>"
  have 1: "forEach (PodCheckpointer_visits it) (\<lambda>(name, data). appendFiles [FileFromString
      (filepath_Join X (filepath_Join X rootDir ''pod-checkpointer-operator-bootstrap'') name)
      420 data]) s = (Ok (), ?s1)"
    using Some by (simp add: range_appendFiles [OF Some] appendFiles_def)
  have 2: "forEach (KubeProxy_visits it) (\<lambda>(name, data). appendFiles [FileFromString
      (filepath_Join X (filepath_Join X rootDir ''kube-proxy-operator-bootstrap'') name)
      420 data]) ?s1 = (Ok (), ?s2)"
    by (subst range_appendFiles [where c = "c\<lparr>Storage_Files := Storage_Files c @ ?P\<rparr>"])
       (simp_all add: appendFiles_def)
  have 3: "forEach (KubeDNS_visits it) (\<lambda>(name, data). appendFiles [FileFromString
      (filepath_Join X (filepath_Join X rootDir ''kube-dns-operator-bootstrap'') name)
      420 data]) ?s2 = appendFiles (temporaryFiles X it) s"
    using Some
    by (subst range_appendFiles [where c = "c\<lparr>Storage_Files := Storage_Files c @ ?P @ ?K\<rparr>"])
       (simp_all add: appendFiles_def temporaryFiles_def)
  show ?thesis
    using Some
    by (simp add: addTemporaryBootkubeFiles_def Let_def bind_def [of "forEach _ _"] 1 2 3)
       (simp add: bind_def)
qed

lemma lockstep_bind:
  assumes "lockstep X it1 it2 m1 m2" and "\<And>x. lockstep X it1 it2 (f1 x) (f2 x)"
  shows "lockstep X it1 it2 (bind m1 f1) (bind m2 f2)"
  unfolding lockstep_def
proof (intro allI impI)
  fix s1 s2 assume s: "sim X it1 it2 s1 s2"
  obtain r1 t1 where m1: "m1 s1 = (r1, t1)" by (cases "m1 s1")
  obtain r2 t2 where m2: "m2 s2 = (r2, t2)" by (cases "m2 s2")
  from assms(1) s
  have "fst (m1 s1) = fst (m2 s2) \<and> sim X it1 it2 (snd (m1 s1)) (snd (m2 s2))"
    unfolding lockstep_def by blast
  with m1 m2 have r: "r1 = r2" and t: "sim X it1 it2 t1 t2"
    by simp_all
  show "fst (bind m1 f1 s1) = fst (bind m2 f2 s2) \<and>
    sim X it1 it2 (snd (bind m1 f1 s1)) (snd (bind m2 f2 s2))"
  proof (cases r2)
    case (Ok x)
    from assms(2) [of x] t
    have "fst (f1 x t1) = fst (f2 x t2) \<and> sim X it1 it2 (snd (f1 x t1)) (snd (f2 x t2))"
      unfolding lockstep_def by blast
    with Ok r m1 m2 show ?thesis
      by (simp add: bind_def)
  qed (use r t m1 m2 in \<open>simp_all add: bind_def\<close>)
qed

lemma sim_related: "sim X it1 it2 t1 t2 \<Longrightarrow> related_runs X it1 it2 (r1, t1) (r2, t2)"
  by (auto simp: sim_def related_runs_def)

lemma agree_bind:
  assumes "lockstep X it1 it2 m1 m2" and "\<And>x. agree X it1 it2 (f1 x) (f2 x)"
  shows "agree X it1 it2 (bind m1 f1) (bind m2 f2)"
  unfolding agree_def
proof (intro allI impI)
  fix s1 s2 assume s: "sim X it1 it2 s1 s2"
  obtain r1 t1 where m1: "m1 s1 = (r1, t1)" by (cases "m1 s1")
  obtain r2 t2 where m2: "m2 s2 = (r2, t2)" by (cases "m2 s2")
  from assms(1) s
  have "fst (m1 s1) = fst (m2 s2) \<and> sim X it1 it2 (snd (m1 s1)) (snd (m2 s2))"
    unfolding lockstep_def by blast
  with m1 m2 have r: "r1 = r2" and t: "sim X it1 it2 t1 t2"
    by simp_all
  show "related_runs X it1 it2 (bind m1 f1 s1) (bind m2 f2 s2)"
  proof (cases r2)
    case (Ok x)
    from assms(2) [of x] t have "related_runs X it1 it2 (f1 x t1) (f2 x t2)"
      unfolding agree_def by blast
    with Ok r m1 m2 show ?thesis
      by (simp add: bind_def)
  qed (use r m1 m2 sim_related [OF t] in \<open>simp_all add: bind_def\<close>)
qed

lemma lockstep_ret: "lockstep X it1 it2 (ret x) (ret x)"
  by (simp add: lockstep_def ret_def)

lemma lockstep_lift: "lockstep X it1 it2 (lift r) (lift r)"
  by (simp add: lockstep_def lift_def)

lemma lockstep_Get: "lockstep X it1 it2 (Get p d) (Get p d)"
  by (simp add: lockstep_def sim_def Get_def Let_def split: option.splits)

lemma lockstep_appendFiles: "lockstep X it1 it2 (appendFiles fs) (appendFiles fs)"
  unfolding lockstep_def
proof (intro allI impI)
  fix s1 s2 assume "sim X it1 it2 s1 s2"
  then obtain c1 c2 before after where
    eq: "requested s1 = requested s2" "File (self s1) = File (self s2)" and
    c: "Config (self s1) = Some c1" "Config (self s2) = Some c2" and
    rest: "Ignition_Version c1 = Ignition_Version c2" "Systemd_Units c1 = Systemd_Units c2"
      "Passwd_Users c1 = Passwd_Users c2" and
    files: "Storage_Files c1 = before @ temporaryFiles X it1 @ after"
      "Storage_Files c2 = before @ temporaryFiles X it2 @ after"
    by (auto simp: sim_def same_except_range_order_def)
  have "Storage_Files c1 @ fs = before @ temporaryFiles X it1 @ (after @ fs)"
    "Storage_Files c2 @ fs = before @ temporaryFiles X it2 @ (after @ fs)"
    using files by simp_all
  then have "same_except_range_order X it1 it2
      (c1\<lparr>Storage_Files := Storage_Files c1 @ fs\<rparr>) (c2\<lparr>Storage_Files := Storage_Files c2 @ fs\<rparr>)"
    unfolding same_except_range_order_def using rest by auto
  then show "fst (appendFiles fs s1) = fst (appendFiles fs s2) \<and>
    sim X it1 it2 (snd (appendFiles fs s1)) (snd (appendFiles fs s2))"
    using eq c by (simp add: appendFiles_def sim_def)
qed

lemma lockstep_appendUnits: "lockstep X it1 it2 (appendUnits us) (appendUnits us)"
  by (auto simp: lockstep_def sim_def appendUnits_def same_except_range_order_def) blast

lemma lockstep_appendUsers: "lockstep X it1 it2 (appendUsers us) (appendUsers us)"
  by (auto simp: lockstep_def sim_def appendUsers_def same_except_range_order_def) blast

lemma lockstep_applyTemplateData:
  "lockstep X it1 it2 (applyTemplateData t td) (applyTemplateData t td)"
  by (simp add: applyTemplateData_def lockstep_lift)

lemma lockstep_forEach:
  "(\<And>x. x \<in> set xs \<Longrightarrow> lockstep X it1 it2 (body x) (body x)) \<Longrightarrow>
   lockstep X it1 it2 (forEach xs body) (forEach xs body)"
  by (induction xs) (auto intro: lockstep_bind lockstep_ret)

lemmas lockstep_step =
  lockstep_bind lockstep_forEach lockstep_ret lockstep_lift lockstep_Get lockstep_appendFiles
  lockstep_appendUnits lockstep_appendUsers lockstep_applyTemplateData

lemma lockstep_addTectonicFiles:
  "lockstep X it1 it2 (addTectonicFiles X p) (addTectonicFiles X p)"
  unfolding addTectonicFiles_def
  by (auto intro!: lockstep_step)

lemma lockstep_addTLSCertFiles:
  "lockstep X it1 it2 (addTLSCertFiles X p) (addTLSCertFiles X p)"
  unfolding addTLSCertFiles_def
  by (auto intro!: lockstep_step)

lemma agree_last:
  "agree X it1 it2 (bind (marshalConfig X) (\<lambda>data. setFile (F data)))
     (bind (marshalConfig X) (\<lambda>data. setFile (F data)))"
  by (auto simp: agree_def sim_def related_runs_def bind_def marshalConfig_def setFile_def
        split: option.splits sum.splits)

text \<open>The two runs do the same up to the three loops.\<close>

lemma related_same_prefix:
  "(\<And>x s'. related_runs X it1 it2 (f1 x s') (f2 x s')) \<Longrightarrow>
   related_runs X it1 it2 (bind m f1 s) (bind m f2 s)"
  by (cases "m s"; cases "fst (m s)") (auto simp: bind_def related_runs_def)

text \<open>The three loops, and what follows them.\<close>

lemma related_after_loops:
  assumes "agree X it1 it2 k k"
  shows "related_runs X it1 it2
    (bind (addTemporaryBootkubeFiles X it1 td) (\<lambda>_. k) s)
    (bind (addTemporaryBootkubeFiles X it2 td) (\<lambda>_. k) s)"
proof (cases "Config (self s)")
  case None
  then show ?thesis
    by (simp add: addTemporaryBootkubeFiles_closed bind_def related_runs_def)
next
  case (Some c)
  let ?t = "\<lambda>it after. s\<lparr>self := (self s)\<lparr>Config :=
    Some (c\<lparr>Storage_Files := Storage_Files c @ temporaryFiles X it @ after\<rparr>)\<rparr>\<rparr>"
  have sim: "sim X it1 it2 (?t it1 after) (?t it2 after)" for after
    by (auto simp: sim_def same_except_range_order_def)
  show ?thesis
  proof (cases "tmpl_Execute (BootkubeKubeDNSService X) td")
    case None
    have "addTemporaryBootkubeFiles X it td s = (Panic, ?t it [])" for it
      using Some None
      by (simp add: addTemporaryBootkubeFiles_closed bind_def appendFiles_def
            applyTemplateData_def lift_def)
    then show ?thesis
      using sim_related [OF sim [of "[]"], of Panic Panic]
      by (simp add: bind_def)
  next
    case (Some str)
    let ?svc = "FileFromString
      (filepath_Join X (filepath_Join X rootDir ''kube-dns-operator-bootstrap'')
         ''kube-dns-svc.yaml'') 420 str"
    have "addTemporaryBootkubeFiles X it td s = (Ok (), ?t it [?svc])" for it
      using \<open>Config (self s) = Some c\<close> Some
      by (simp add: addTemporaryBootkubeFiles_closed bind_def appendFiles_def
            applyTemplateData_def lift_def)
    then show ?thesis
      using assms sim [of "[?svc]"]
      by (simp add: bind_def agree_def)
  qed
qed

lemma related_Generate:
  "related_runs X it1 it2 (Generate X env it1 p s) (Generate X env it2 p s)"
  unfolding Generate_def
  by (intro related_same_prefix related_after_loops)
     (auto split: option.splits
        intro!: agree_bind agree_last lockstep_step lockstep_addTectonicFiles
        lockstep_addTLSCertFiles)

lemma same_temporaryFiles:
  "temporaryFiles X it1 = temporaryFiles X it2 \<Longrightarrow>
   addTemporaryBootkubeFiles X it1 td = addTemporaryBootkubeFiles X it2 td"
  by (rule ext) (simp add: addTemporaryBootkubeFiles_closed split: option.splits)

lemma range_order_single:
  "range_order m visits \<Longrightarrow> length m \<le> 1 \<Longrightarrow> visits = m"
  unfolding range_order_def
  by (cases m; cases visits) (auto simp: single_is_union)

text \<open>
  C3, as amended: for fixed content, environment and dependencies, two runs of
  \<^verbatim>\<open>Generate\<close>, each visiting the entries of the three manifest maps in some order,
  either fail in the same way and leave the same asset, or leave configurations with the
  same version, units and users whose storage files are the same, in the same order,
  before and after the files that the three loops of \<^verbatim>\<open>addTemporaryBootkubeFiles\<close>
  append; there each run holds the files of the pod-checkpointer map, then of the
  kube-proxy map, then of the kube-dns map, each map's files in the order in which the run
  visited its entries. A second run has the result and leaves the asset, file data
  included, of a successful first run exactly when both append the same sequence of files
  in the three loops. That is so when each of the three maps has at most one entry.
\<close>

theorem Generate_same_except_range_order:
  assumes "range_orders X it1" and "range_orders X it2"
  shows
    "((fst (Generate X env it1 p (start a)) \<noteq> Ok () \<and>
       Generate X env it1 p (start a) = Generate X env it2 p (start a)) \<or>
      (\<exists>c1 c2.
         Config (self (snd (Generate X env it1 p (start a)))) = Some c1 \<and>
         Config (self (snd (Generate X env it2 p (start a)))) = Some c2 \<and>
         same_except_range_order X it1 it2 c1 c2)) \<and>
     (fst (Generate X env it1 p (start a)) = Ok () \<longrightarrow>
        (Generate X env it1 p (start a) = Generate X env it2 p (start a) \<longleftrightarrow>
         temporaryFiles X it1 = temporaryFiles X it2)) \<and>
     (length (PodCheckpointerBootkubeManifests X) \<le> 1 \<and>
      length (KubeProxyBootkubeManifests X) \<le> 1 \<and>
      length (KubeDNSBootkubeManifests X) \<le> 1 \<longrightarrow>
      Generate X env it1 p (start a) = Generate X env it2 p (start a))"
proof (intro conjI impI)
  let ?o1 = "Generate X env it1 p (start a)" and ?o2 = "Generate X env it2 p (start a)"
  have rel: "related_runs X it1 it2 ?o1 ?o2"
    by (rule related_Generate)
  then show "(fst ?o1 \<noteq> Ok () \<and> ?o1 = ?o2) \<or>
      (\<exists>c1 c2. Config (self (snd ?o1)) = Some c1 \<and> Config (self (snd ?o2)) = Some c2 \<and>
         same_except_range_order X it1 it2 c1 c2)"
    by (simp add: related_runs_def)
  have same: "?o1 = ?o2" if "temporaryFiles X it1 = temporaryFiles X it2"
    using same_temporaryFiles [OF that] by (simp add: Generate_def)
  {
    assume ok: "fst ?o1 = Ok ()"
    show "?o1 = ?o2 \<longleftrightarrow> temporaryFiles X it1 = temporaryFiles X it2"
    proof
      assume eq: "?o1 = ?o2"
      from rel ok obtain c1 c2 before after where
        "Config (self (snd ?o1)) = Some c1" "Config (self (snd ?o2)) = Some c2"
        "Storage_Files c1 = before @ temporaryFiles X it1 @ after"
        "Storage_Files c2 = before @ temporaryFiles X it2 @ after"
        by (auto simp: related_runs_def same_except_range_order_def)
      with eq show "temporaryFiles X it1 = temporaryFiles X it2"
        by simp
    qed (rule same)
  }
  {
    assume small: "length (PodCheckpointerBootkubeManifests X) \<le> 1 \<and>
      length (KubeProxyBootkubeManifests X) \<le> 1 \<and>
      length (KubeDNSBootkubeManifests X) \<le> 1"
    from assms have orders:
      "range_order (PodCheckpointerBootkubeManifests X) (PodCheckpointer_visits it1)"
      "range_order (PodCheckpointerBootkubeManifests X) (PodCheckpointer_visits it2)"
      "range_order (KubeProxyBootkubeManifests X) (KubeProxy_visits it1)"
      "range_order (KubeProxyBootkubeManifests X) (KubeProxy_visits it2)"
      "range_order (KubeDNSBootkubeManifests X) (KubeDNS_visits it1)"
      "range_order (KubeDNSBootkubeManifests X) (KubeDNS_visits it2)"
      by (simp_all add: range_orders_def)
    from small orders [THEN range_order_single] have
      "PodCheckpointer_visits it1 = PodCheckpointer_visits it2"
      "KubeProxy_visits it1 = KubeProxy_visits it2"
      "KubeDNS_visits it1 = KubeDNS_visits it2"
      by simp_all
    then have "temporaryFiles X it1 = temporaryFiles X it2"
      by (simp add: temporaryFiles_def)
    then show "?o1 = ?o2" by (rule same)
  }
qed

text \<open>
  With two entries in one map, visited in the two possible orders, the runs succeed and
  differ in the files of the loops only; with one entry per map there is one order.
\<close>

theorem Generate_same_except_range_order_witness:
  "range_orders sample_externals visits_ab \<and> range_orders sample_externals visits_ba \<and>
   fst (Generate sample_externals env_unset visits_ab sample_Parents (start fresh)) = Ok () \<and>
   (\<exists>c1 c2.
      Config (self (snd (Generate sample_externals env_unset visits_ab sample_Parents
        (start fresh)))) = Some c1 \<and>
      Config (self (snd (Generate sample_externals env_unset visits_ba sample_Parents
        (start fresh)))) = Some c2 \<and>
      same_except_range_order sample_externals visits_ab visits_ba c1 c2) \<and>
   temporaryFiles sample_externals visits_ab \<noteq> temporaryFiles sample_externals visits_ba \<and>
   Generate sample_externals env_unset visits_ab sample_Parents (start fresh) \<noteq>
   Generate sample_externals env_unset visits_ba sample_Parents (start fresh) \<and>
   range_orders single_externals visits_a \<and>
   range_orders single_externals
     (visits_ab\<lparr>PodCheckpointer_visits := PodCheckpointerBootkubeManifests single_externals\<rparr>) \<and>
   length (PodCheckpointerBootkubeManifests single_externals) \<le> 1 \<and>
   length (KubeProxyBootkubeManifests single_externals) \<le> 1 \<and>
   length (KubeDNSBootkubeManifests single_externals) \<le> 1 \<and>
   Generate single_externals env_unset visits_a sample_Parents (start fresh) =
   Generate single_externals env_unset
     (visits_ab\<lparr>PodCheckpointer_visits := PodCheckpointerBootkubeManifests single_externals\<rparr>)
     sample_Parents (start fresh)"
proof -
  have ab: "range_orders sample_externals visits_ab"
    by (simp add: range_orders_def range_order_def sample_externals_def visits_ab_def)
  have ba: "range_orders sample_externals visits_ba"
    by (simp add: range_orders_def range_order_def sample_externals_def visits_ba_def)
  have a: "range_orders single_externals visits_a"
    by (simp add: range_orders_def range_order_def single_externals_def sample_externals_def
          visits_a_def)
  have a': "range_orders single_externals
     (visits_ab\<lparr>PodCheckpointer_visits := PodCheckpointerBootkubeManifests single_externals\<rparr>)"
    by (simp add: range_orders_def range_order_def single_externals_def sample_externals_def
          visits_ab_def)
  have small: "length (PodCheckpointerBootkubeManifests single_externals) \<le> 1 \<and>
      length (KubeProxyBootkubeManifests single_externals) \<le> 1 \<and>
      length (KubeDNSBootkubeManifests single_externals) \<le> 1"
    by (simp add: single_externals_def sample_externals_def)
  have ok: "fst (Generate sample_externals env_unset visits_ab sample_Parents (start fresh)) = Ok ()"
    by code_simp
  have differ: "temporaryFiles sample_externals visits_ab \<noteq>
      temporaryFiles sample_externals visits_ba"
    by (simp add: temporaryFiles_def visits_ab_def visits_ba_def FileFromString_def
          FileFromBytes_def sample_externals_def)
  from ab ba a a' small ok differ
    Generate_same_except_range_order [OF ab ba, of env_unset sample_Parents fresh]
    Generate_same_except_range_order [OF a a', of env_unset sample_Parents fresh]
  show ?thesis by simp
qed

text \<open>
  The same content, environment and dependencies, one map with two entries visited in
  the two possible orders: both runs succeed, and the data of the two files differ.
\<close>

theorem Generate_deterministic_counterexample:
  "range_orders sample_externals visits_ab \<and> range_orders sample_externals visits_ba \<and>
   fst (Generate sample_externals env_unset visits_ab sample_Parents (start fresh)) = Ok () \<and>
   fst (Generate sample_externals env_unset visits_ba sample_Parents (start fresh)) = Ok () \<and>
   map_option Data (File (self (snd
     (Generate sample_externals env_unset visits_ab sample_Parents (start fresh))))) \<noteq>
   map_option Data (File (self (snd
     (Generate sample_externals env_unset visits_ba sample_Parents (start fresh)))))"
proof -
  have "range_orders sample_externals visits_ab" "range_orders sample_externals visits_ba"
    by (simp_all add: range_orders_def range_order_def sample_externals_def visits_ab_def
          visits_ba_def)
  moreover have
    "fst (Generate sample_externals env_unset visits_ab sample_Parents (start fresh)) = Ok () \<and>
     fst (Generate sample_externals env_unset visits_ba sample_Parents (start fresh)) = Ok () \<and>
     map_option Data (File (self (snd
       (Generate sample_externals env_unset visits_ab sample_Parents (start fresh))))) \<noteq>
     map_option Data (File (self (snd
       (Generate sample_externals env_unset visits_ba sample_Parents (start fresh)))))"
    by code_simp
  ultimately show ?thesis by simp
qed

end
